theory Spec2Isabelle
  imports Main "HOL-Library.Word" "HOL-Library.Code_Target_Numeral"
begin

unbundle bit_operations_syntax

section \<open>Byte strings\<close>

text \<open>
  A Go \<^verbatim>\<open>string\<close> is a sequence of bytes, and so is an Isabelle \<^typ>\<open>string\<close>:
  a list of 8-bit characters.  The conversion \<^verbatim>\<open>[]byte(s)\<close> reads each character
  as the byte it is.
\<close>

type_synonym byte = "8 word"
type_synonym word32 = "32 word"

definition bytes_of_string :: "string \<Rightarrow> byte list" where
  "bytes_of_string s = map of_char s"

section \<open>The hash functions of the Go standard library\<close>

text \<open>
  \<^verbatim>\<open>generateToken\<close> and \<^verbatim>\<open>generateSimpleToken\<close> call \<^verbatim>\<open>crypto/sha256\<close>,
  \<^verbatim>\<open>crypto/hmac\<close> and \<^verbatim>\<open>encoding/base64\<close>.  These packages are not part of the
  repository; they are written out here after the standards they implement
  (FIPS 180-4, RFC 2104, RFC 4648), so that a token is a value that can be computed.
\<close>

subsection \<open>SHA-256\<close>

definition rotr :: "nat \<Rightarrow> word32 \<Rightarrow> word32" where
  "rotr n x = drop_bit n x OR push_bit (32 - n) x"

definition sha256_K :: "word32 list" where
  "sha256_K = [
    0x428A2F98, 0x71374491, 0xB5C0FBCF, 0xE9B5DBA5, 0x3956C25B, 0x59F111F1, 0x923F82A4, 0xAB1C5ED5,
    0xD807AA98, 0x12835B01, 0x243185BE, 0x550C7DC3, 0x72BE5D74, 0x80DEB1FE, 0x9BDC06A7, 0xC19BF174,
    0xE49B69C1, 0xEFBE4786, 0x0FC19DC6, 0x240CA1CC, 0x2DE92C6F, 0x4A7484AA, 0x5CB0A9DC, 0x76F988DA,
    0x983E5152, 0xA831C66D, 0xB00327C8, 0xBF597FC7, 0xC6E00BF3, 0xD5A79147, 0x06CA6351, 0x14292967,
    0x27B70A85, 0x2E1B2138, 0x4D2C6DFC, 0x53380D13, 0x650A7354, 0x766A0ABB, 0x81C2C92E, 0x92722C85,
    0xA2BFE8A1, 0xA81A664B, 0xC24B8B70, 0xC76C51A3, 0xD192E819, 0xD6990624, 0xF40E3585, 0x106AA070,
    0x19A4C116, 0x1E376C08, 0x2748774C, 0x34B0BCB5, 0x391C0CB3, 0x4ED8AA4A, 0x5B9CCA4F, 0x682E6FF3,
    0x748F82EE, 0x78A5636F, 0x84C87814, 0x8CC70208, 0x90BEFFFA, 0xA4506CEB, 0xBEF9A3F7, 0xC67178F2]"

definition sha256_init :: "word32 list" where
  "sha256_init = [0x6A09E667, 0xBB67AE85, 0x3C6EF372, 0xA54FF53A,
                  0x510E527F, 0x9B05688C, 0x1F83D9AB, 0x5BE0CD19]"

text \<open>Padding: the byte 0x80, zero bytes up to 56 modulo 64, the bit length in 8 bytes.\<close>

definition sha256_pad :: "byte list \<Rightarrow> byte list" where
  "sha256_pad m =
     (let n = length m;
          z = (119 - n mod 64) mod 64;
          len = (word_of_nat (8 * n) :: 64 word)
      in m @ [0x80] @ replicate z 0 @
         map (\<lambda>i. ucast (drop_bit (8 * (7 - i)) len)) [0..<8])"

fun be_words :: "byte list \<Rightarrow> word32 list" where
  "be_words (a # b # c # d # bs) =
     (push_bit 24 (ucast a) OR push_bit 16 (ucast b) OR push_bit 8 (ucast c) OR ucast d)
       # be_words bs"
| "be_words _ = []"

definition be_bytes :: "word32 \<Rightarrow> byte list" where
  "be_bytes w = [ucast (drop_bit 24 w), ucast (drop_bit 16 w), ucast (drop_bit 8 w), ucast w]"

text \<open>The message schedule: the 16 words of the block, extended by \<open>k\<close> further words.\<close>

fun sha256_schedule :: "nat \<Rightarrow> word32 list \<Rightarrow> word32 list" where
  "sha256_schedule 0 w = w"
| "sha256_schedule (Suc k) w =
     (let i = length w;
          v1 = w ! (i - 2);
          t1 = rotr 17 v1 XOR rotr 19 v1 XOR drop_bit 10 v1;
          v2 = w ! (i - 15);
          t2 = rotr 7 v2 XOR rotr 18 v2 XOR drop_bit 3 v2
      in sha256_schedule k (w @ [t1 + w ! (i - 7) + t2 + w ! (i - 16)]))"

fun sha256_round :: "word32 list \<Rightarrow> word32 \<times> word32 \<Rightarrow> word32 list" where
  "sha256_round [a, b, c, d, e, f, g, h] (k, w) =
     (let t1 = h + (rotr 6 e XOR rotr 11 e XOR rotr 25 e) + ((e AND f) XOR (NOT e AND g)) + k + w;
          t2 = (rotr 2 a XOR rotr 13 a XOR rotr 22 a) + ((a AND b) XOR (a AND c) XOR (b AND c))
      in [t1 + t2, a, b, c, d + t1, e, f, g])"
| "sha256_round s _ = s"

definition sha256_block :: "word32 list \<Rightarrow> byte list \<Rightarrow> word32 list" where
  "sha256_block hs p =
     map2 (+) hs (foldl sha256_round hs (zip sha256_K (sha256_schedule 48 (be_words p))))"

fun chunks :: "nat \<Rightarrow> byte list \<Rightarrow> byte list list" where
  "chunks 0 xs = []"
| "chunks (Suc k) xs = take 64 xs # chunks k (drop 64 xs)"

definition sha256 :: "byte list \<Rightarrow> byte list" where
  "sha256 m =
     (let p = sha256_pad m
      in concat (map be_bytes (foldl sha256_block sha256_init (chunks (length p div 64) p))))"

subsection \<open>HMAC-SHA256\<close>

text \<open>
  \<^verbatim>\<open>hmac.New(sha256.New, key)\<close>, \<^verbatim>\<open>Write(msg)\<close>, \<^verbatim>\<open>Sum(nil)\<close>: a key longer than the
  block size of 64 bytes is hashed first, the key is padded with zero bytes to the block
  size, and the digest is H(opad || H(ipad || msg)).
\<close>

definition hmac_sha256 :: "byte list \<Rightarrow> byte list \<Rightarrow> byte list" where
  "hmac_sha256 key msg =
     (let k = (if length key > 64 then sha256 key else key);
          k' = k @ replicate (64 - length k) 0;
          ipad = map (\<lambda>b. b XOR 0x36) k';
          opad = map (\<lambda>b. b XOR 0x5c) k'
      in sha256 (opad @ sha256 (ipad @ msg)))"

subsection \<open>Base64, standard alphabet with padding\<close>

definition encodeStd :: string where
  "encodeStd = ''ABCDEFGHIJKLMNOPQRSTUVWXYZabcdefghijklmnopqrstuvwxyz0123456789+/''"

definition b64 :: "byte \<Rightarrow> char" where
  "b64 v = encodeStd ! unat (v AND 0x3F)"

fun base64_EncodeToString :: "byte list \<Rightarrow> string" where
  "base64_EncodeToString (a # b # c # rest) =
     [b64 (drop_bit 2 a), b64 (push_bit 4 a OR drop_bit 4 b),
      b64 (push_bit 2 b OR drop_bit 6 c), b64 c] @ base64_EncodeToString rest"
| "base64_EncodeToString [a, b] =
     [b64 (drop_bit 2 a), b64 (push_bit 4 a OR drop_bit 4 b), b64 (push_bit 2 b), CHR ''='']"
| "base64_EncodeToString [a] =
     [b64 (drop_bit 2 a), b64 (push_bit 4 a), CHR ''='', CHR ''='']"
| "base64_EncodeToString [] = []"

section \<open>Amounts: \<^verbatim>\<open>float64\<close> and its formatting with two decimals\<close>

text \<open>
  A \<^verbatim>\<open>float64\<close> is its 64 bits (IEEE 754 binary64): one sign bit, 11 exponent bits,
  52 mantissa bits.  The three fields are read as \<^verbatim>\<open>strconv\<close> reads them.  A finite
  value is exactly \<open>mant * 2 ^ (exp - 1075)\<close>, with the hidden bit added to the mantissa of
  a normal number and the exponent 1 for a denormal one; exponent 2047 is an infinity
  (mantissa 0) or a NaN.
\<close>

type_synonym float64 = "64 word"

definition float64_neg :: "float64 \<Rightarrow> bool" where
  "float64_neg x = (drop_bit 63 x \<noteq> 0)"

definition float64_exp :: "float64 \<Rightarrow> nat" where
  "float64_exp x = unat (drop_bit 52 x AND 0x7FF)"

definition float64_mant :: "float64 \<Rightarrow> nat" where
  "float64_mant x = unat (x AND 0xFFFFFFFFFFFFF)"

definition digit :: "nat \<Rightarrow> char" where
  "digit d = ''0123456789'' ! (d mod 10)"

fun decimal :: "nat \<Rightarrow> string" where
  "decimal n = (if n < 10 then [digit n] else decimal (n div 10) @ [digit (n mod 10)])"

text \<open>The quotient \<open>n / d\<close> rounded to the nearest natural number, a tie to the even one.\<close>

definition round_half_even :: "nat \<Rightarrow> nat \<Rightarrow> nat" where
  "round_half_even n d =
     (let q = n div d; r = n mod d
      in if d < 2 * r \<or> (2 * r = d \<and> odd q) then q + 1 else q)"

text \<open>The value \<open>mant * 2 ^ (exp - 1075)\<close> in hundredths, rounded.\<close>

definition hundredths :: "nat \<Rightarrow> nat \<Rightarrow> nat" where
  "hundredths mant exp =
     (if 1075 \<le> exp then mant * 2 ^ (exp - 1075) * 100
      else round_half_even (mant * 100) (2 ^ (1075 - exp)))"

text \<open>
  \<^verbatim>\<open>strconv.FormatFloat(x, 'f', 2, 64)\<close>.  The library converts the binary value to its
  exact decimal expansion and rounds that to two digits after the point, a tie to even;
  the sign is printed whenever the sign bit is set.  NaN and the infinities have names
  instead of digits.
\<close>

definition FormatFloat_f2 :: "float64 \<Rightarrow> string" where
  "FormatFloat_f2 x =
     (let neg = float64_neg x; exp = float64_exp x; mant = float64_mant x
      in if exp = 2047 then
           (if mant \<noteq> 0 then ''NaN'' else if neg then ''-Inf'' else ''+Inf'')
         else
           (let h = (if exp = 0 then hundredths mant 1 else hundredths (mant + 2 ^ 52) exp)
            in (if neg then ''-'' else '''') @ decimal (h div 100) @ ''.'' @
               [digit (h div 10), digit h]))"

text \<open>
  The verb \<^verbatim>\<open>%.2f\<close> of \<^verbatim>\<open>fmt.Sprintf\<close>, with no flags.  \<^verbatim>\<open>fmt\<close> formats the number
  behind a reserved sign position, which it drops again for a number that is not
  negative and for a NaN.
\<close>

definition Sprintf_2f :: "float64 \<Rightarrow> string" where
  "Sprintf_2f v =
     (let num = CHR ''+'' # FormatFloat_f2 v;
          num = (if num ! 1 = CHR ''-'' \<or> num ! 1 = CHR ''+'' then tl num else num)
      in if num ! 1 = CHR ''I'' \<or> num ! 1 = CHR ''N'' then
           (if num ! 1 = CHR ''N'' then tl num else num)
         else if num ! 0 \<noteq> CHR ''+'' then num
         else tl num)"

section \<open>The domain types\<close>

text \<open>
  The structs of package \<^verbatim>\<open>domain\<close>, field by field and in the order of the source.
  A field whose name is also that of a field of an earlier struct, or of a method of the
  service, carries a prefix naming its struct.
\<close>

record PayTRConfig =
  config_MerchantID :: string
  config_MerchantKey :: string
  config_MerchantSalt :: string

record CommonPaymentRequest =
  MerchantID :: string
  UserIP :: string
  MerchantOid :: string
  Email :: string
  PaymentAmount :: float64
  PaymentType :: string
  Currency :: string
  TestMode :: string
  NonThreeD :: string
  MerchantOkURL :: string
  MerchantFailURL :: string
  UserName :: string
  UserAddress :: string
  UserPhone :: string
  UserBasket :: string
  DebugOn :: string
  ClientLang :: string
  PayTRToken :: string
  InstallmentCount :: string

text \<open>A struct that embeds \<^verbatim>\<open>CommonPaymentRequest\<close> is an extension of its record.\<close>

record NewCardPaymentRequest = CommonPaymentRequest +
  CardOwner :: string
  CardNumber :: string
  ExpiryMonth :: string
  ExpiryYear :: string
  CVV :: string
  CardType :: string
  StoreCard :: string

record SavedCardPaymentRequest = CommonPaymentRequest +
  UToken :: string
  CToken :: string
  saved_CVV :: string
  saved_RecurringPayment :: string

record AddNewCardRequest =
  add_UserID :: string
  add_CardOwner :: string
  add_CardNumber :: string
  add_ExpiryMonth :: string
  add_ExpiryYear :: string
  add_CVV :: string
  add_CardType :: string
  add_UserIP :: string
  add_MerchantOid :: string
  add_Email :: string
  add_UserName :: string
  add_UserAddress :: string
  add_UserPhone :: string
  add_MerchantOkURL :: string
  add_MerchantFailURL :: string
  add_ClientLang :: string
  add_Currency :: string
  add_PaymentAmount :: float64

record RefundRequest =
  refund_MerchantOid :: string
  ReturnAmount :: float64
  ReferenceNo :: string

record StatusInquiryRequest =
  inquiry_MerchantOid :: string

record TransactionDetailsRequest =
  StartDate :: string
  EndDate :: string
  Dummy :: int

text \<open>
  A value that \<^verbatim>\<open>encoding/json\<close> decodes into an \<^verbatim>\<open>interface{}\<close>.  A JSON object, a
  Go \<^verbatim>\<open>map[string]interface{}\<close>, is the list of its entries in the order in which a
  \<^verbatim>\<open>range\<close> over the map visits them.  One order stands for all the loops over a map
  in one call; the order has an effect only where two keys of a map differ in nothing
  but the case of their letters.
\<close>

datatype jvalue =
    JNull
  | JBool bool
  | JNumber float64
  | JString string
  | JArray "jvalue list"
  | JObject "(string \<times> jvalue) list"

record PayTRResponse =
  Status :: string
  Message :: string
  Data :: "(string \<times> jvalue) list"

record SubmerchantPayment =
  SubmerchantId :: string
  SubmerchantPrice :: string
  SubmerchantPayoutRate :: string
  SubmerchantPayoutAmount :: string

record StatusInquiryResponse =
  inquiry_Status :: string
  inquiry_PaymentAmount :: string
  PaymentTotal :: string
  PaymentDate :: string
  inquiry_Currency :: string
  NetTutar :: string
  KesintiTutari :: string
  Taksit :: string
  KartMarka :: string
  MaskedPan :: string
  OdemeTipi :: string
  inquiry_TestMode :: string
  Returns :: string
  ErrNo :: string
  ErrMsg :: string
  SubmerchantPayments :: "SubmerchantPayment list"

record Transaction =
  IslemTipi :: string
  tx_NetTutar :: string
  tx_KesintiTutari :: string
  KesintiOrani :: string
  IslemTutari :: string
  OdemeTutari :: string
  IslemTarihi :: string
  ParaBirimi :: string
  tx_Taksit :: string
  tx_KartMarka :: string
  KartNo :: string
  SiparisNo :: string
  tx_OdemeTipi :: string

record TransactionDetailsResponse =
  details_Status :: string
  Transactions :: "Transaction list"
  details_ErrMsg :: string

definition PayTRBaseURL :: string where
  "PayTRBaseURL = ''https://www.paytr.com''"

section \<open>Errors, payloads and the transport\<close>

text \<open>
  An \<^verbatim>\<open>error\<close> value of the program.  \<open>UnsupportedValueError\<close> is what
  \<^verbatim>\<open>json.Marshal\<close> returns for a float that JSON cannot express; \<open>LibError\<close> is an
  error returned by a library call or by the injected client, known by its message;
  \<open>MapstructureError\<close> lists the fields that \<^verbatim>\<open>mapstructure.Decode\<close> could not fill;
  the last two are the errors that \<^verbatim>\<open>MerchantStatusInquiry\<close> and
  \<^verbatim>\<open>GetTransactionDetails\<close> build with \<^verbatim>\<open>fmt.Errorf\<close>, from the formats
  \<^verbatim>\<open>"PayTR error: %s"\<close> and \<^verbatim>\<open>"error decoding response: %v"\<close>.
\<close>

datatype error =
    UnsupportedValueError float64
  | LibError string
  | MapstructureError "string list"
  | PayTR_error string
  | Error_decoding_response error

text \<open>
  The values handed to \<^verbatim>\<open>sendRequest\<close> as its \<^verbatim>\<open>interface{}\<close> argument: the two
  request structs, and the anonymous struct of each other operation with its fields in
  the order of the source.
\<close>

datatype payload =
    NewCardPayload NewCardPaymentRequest
  | SavedCardPayload SavedCardPaymentRequest
  | RefundPayload string string float64 string string
      \<comment> \<open>MerchantID, MerchantOid, ReturnAmount, PayTRToken, ReferenceNo\<close>
  | StatusInquiryPayload string string string
      \<comment> \<open>MerchantID, MerchantOid, PayTRToken\<close>
  | TransactionDetailsPayload string string string int string
      \<comment> \<open>MerchantID, StartDate, EndDate, Dummy, PayTRToken\<close>
  | BinDetailsPayload string string string
      \<comment> \<open>MerchantID, BinNumber, PayTRToken\<close>
  | SavedCardsPayload string string string
      \<comment> \<open>MerchantID, UToken, PayTRToken\<close>
  | DeleteSavedCardPayload string string string string
      \<comment> \<open>MerchantID, UToken, CToken, PayTRToken\<close>

subsection \<open>Strings in a JSON document\<close>

text \<open>
  \<^verbatim>\<open>encoding/json\<close> writes a Go string as valid UTF-8: it reads the string rune by rune
  with \<^verbatim>\<open>utf8.DecodeRuneInString\<close>, and where that returns the error rune of width 1
  it writes U+FFFD for the one byte and goes on with the next.  The escapes that the
  encoder writes besides do not change the string that the document holds.

  \<open>rune_width bs\<close> is the number of bytes of the encoding that is well formed at the
  head of \<open>bs\<close>, and 0 where the decoder returns the error rune of width 1: for a byte
  that cannot start an encoding, a continuation byte out of its range, or an encoding
  that the end of the string cuts short.  The range of the second byte depends on the
  first, which excludes the encodings that are too long, the surrogates and the runes
  beyond U+10FFFF.
\<close>

definition continuation_byte :: "nat \<Rightarrow> bool" where
  "continuation_byte b = (0x80 \<le> b \<and> b \<le> 0xBF)"

fun rune_width :: "nat list \<Rightarrow> nat" where
  "rune_width [] = 0"
| "rune_width (b0 # bs) =
     (if b0 < 0x80 then 1
      else if 0xC2 \<le> b0 \<and> b0 \<le> 0xDF then
        (case bs of
           b1 # _ \<Rightarrow> if continuation_byte b1 then 2 else 0
         | _ \<Rightarrow> 0)
      else if 0xE0 \<le> b0 \<and> b0 \<le> 0xEF then
        (case bs of
           b1 # b2 # _ \<Rightarrow>
             if (if b0 = 0xE0 then 0xA0 else 0x80) \<le> b1 \<and>
                b1 \<le> (if b0 = 0xED then 0x9F else 0xBF) \<and> continuation_byte b2
             then 3 else 0
         | _ \<Rightarrow> 0)
      else if 0xF0 \<le> b0 \<and> b0 \<le> 0xF4 then
        (case bs of
           b1 # b2 # b3 # _ \<Rightarrow>
             if (if b0 = 0xF0 then 0x90 else 0x80) \<le> b1 \<and>
                b1 \<le> (if b0 = 0xF4 then 0x8F else 0xBF) \<and>
                continuation_byte b2 \<and> continuation_byte b3
             then 4 else 0
         | _ \<Rightarrow> 0)
      else 0)"

definition DecodeRune_width :: "string \<Rightarrow> nat" where
  "DecodeRune_width s = rune_width (map of_char s)"

text \<open>The encoding of U+FFFD: the bytes EF BF BD.\<close>

definition replacement_char :: string where
  "replacement_char = [CHR 0xEF, CHR 0xBF, CHR 0xBD]"

text \<open>The string that the document holds for a Go string.\<close>

fun json_string :: "string \<Rightarrow> string" where
  "json_string [] = []"
| "json_string (c # cs) =
     (let width = DecodeRune_width (c # cs)
      in if width = 0 then replacement_char @ json_string cs
         else c # take (width - 1) cs @ json_string (drop (width - 1) cs))"

text \<open>\<^verbatim>\<open>utf8.ValidString\<close>: every byte belongs to a well-formed encoding.\<close>

fun utf8_ValidString :: "string \<Rightarrow> bool" where
  "utf8_ValidString [] = True"
| "utf8_ValidString (c # cs) =
     (let width = DecodeRune_width (c # cs)
      in width \<noteq> 0 \<and> utf8_ValidString (drop (width - 1) cs))"

subsection \<open>The JSON document of a payload\<close>

datatype json_value = JSONString string | JSONNumber float64 | JSONInt int

text \<open>
  The members of the JSON object that \<^verbatim>\<open>json.Marshal\<close> writes for a payload, named by
  the \<^verbatim>\<open>json\<close> tags of the struct, the fields of an embedded struct first; a field
  tagged \<^verbatim>\<open>omitempty\<close> is left out when it holds the zero value of its type.  A
  string member holds the string of the field as the document holds it, which is the
  string of the field where that is valid UTF-8.
\<close>

definition common_members :: "'a CommonPaymentRequest_scheme \<Rightarrow> (string \<times> json_value) list" where
  "common_members r =
     [(''merchant_id'', JSONString (json_string (MerchantID r))),
      (''user_ip'', JSONString (json_string (UserIP r))),
      (''merchant_oid'', JSONString (json_string (MerchantOid r))),
      (''email'', JSONString (json_string (Email r))),
      (''payment_amount'', JSONNumber (PaymentAmount r)),
      (''payment_type'', JSONString (json_string (PaymentType r))),
      (''currency'', JSONString (json_string (Currency r))),
      (''test_mode'', JSONString (json_string (TestMode r))),
      (''non_3d'', JSONString (json_string (NonThreeD r))),
      (''merchant_ok_url'', JSONString (json_string (MerchantOkURL r))),
      (''merchant_fail_url'', JSONString (json_string (MerchantFailURL r))),
      (''user_name'', JSONString (json_string (UserName r))),
      (''user_address'', JSONString (json_string (UserAddress r))),
      (''user_phone'', JSONString (json_string (UserPhone r))),
      (''user_basket'', JSONString (json_string (UserBasket r))),
      (''debug_on'', JSONString (json_string (DebugOn r))),
      (''client_lang'', JSONString (json_string (ClientLang r))),
      (''paytr_token'', JSONString (json_string (PayTRToken r))),
      (''installment_count'', JSONString (json_string (InstallmentCount r)))]"

fun json_members :: "payload \<Rightarrow> (string \<times> json_value) list" where
  "json_members (NewCardPayload r) =
     common_members r @
     [(''cc_owner'', JSONString (json_string (CardOwner r))),
      (''card_number'', JSONString (json_string (CardNumber r))),
      (''expiry_month'', JSONString (json_string (ExpiryMonth r))),
      (''expiry_year'', JSONString (json_string (ExpiryYear r))),
      (''cvv'', JSONString (json_string (CVV r))),
      (''card_type'', JSONString (json_string (CardType r))),
      (''store_card'', JSONString (json_string (StoreCard r)))]"
| "json_members (SavedCardPayload r) =
     common_members r @
     [(''utoken'', JSONString (json_string (UToken r))),
      (''ctoken'', JSONString (json_string (CToken r))),
      (''cvv'', JSONString (json_string (saved_CVV r))),
      (''recurring_payment'', JSONString (json_string (saved_RecurringPayment r)))]"
| "json_members (RefundPayload mid oid amount token ref) =
     [(''merchant_id'', JSONString (json_string mid)),
      (''merchant_oid'', JSONString (json_string oid)),
      (''return_amount'', JSONNumber amount),
      (''paytr_token'', JSONString (json_string token))] @
     (if ref = [] then [] else [(''reference_no'', JSONString (json_string ref))])"
| "json_members (StatusInquiryPayload mid oid token) =
     [(''merchant_id'', JSONString (json_string mid)),
      (''merchant_oid'', JSONString (json_string oid)),
      (''paytr_token'', JSONString (json_string token))]"
| "json_members (TransactionDetailsPayload mid startDate endDate dummy token) =
     [(''merchant_id'', JSONString (json_string mid)),
      (''start_date'', JSONString (json_string startDate)),
      (''end_date'', JSONString (json_string endDate))] @
     (if dummy = 0 then [] else [(''dummy'', JSONInt dummy)]) @
     [(''paytr_token'', JSONString (json_string token))]"
| "json_members (BinDetailsPayload mid binNumber token) =
     [(''merchant_id'', JSONString (json_string mid)),
      (''bin_number'', JSONString (json_string binNumber)),
      (''paytr_token'', JSONString (json_string token))]"
| "json_members (SavedCardsPayload mid utoken token) =
     [(''merchant_id'', JSONString (json_string mid)),
      (''utoken'', JSONString (json_string utoken)),
      (''paytr_token'', JSONString (json_string token))]"
| "json_members (DeleteSavedCardPayload mid utoken ctoken token) =
     [(''merchant_id'', JSONString (json_string mid)),
      (''utoken'', JSONString (json_string utoken)),
      (''ctoken'', JSONString (json_string ctoken)),
      (''paytr_token'', JSONString (json_string token))]"

text \<open>
  \<^verbatim>\<open>json.Marshal\<close> on a payload.  Every field is a string, an int or a float64, so the
  one way to fail is a float that is a NaN or an infinity.  The encoded document stands
  for its bytes: the members, in order.
\<close>

fun unsupported_value :: "string \<times> json_value \<Rightarrow> bool" where
  "unsupported_value (k, JSONNumber x) = (float64_exp x = 2047)"
| "unsupported_value _ = False"

definition json_Marshal :: "payload \<Rightarrow> error + (string \<times> json_value) list" where
  "json_Marshal v =
     (case find unsupported_value (json_members v) of
        Some (k, JSONNumber x) \<Rightarrow> Inl (UnsupportedValueError x)
      | _ \<Rightarrow> Inr (json_members v))"

record http_Request =
  Method :: string
  URL :: string
  Header :: "(string \<times> string) list"
  Body :: "(string \<times> json_value) list"

text \<open>
  A response of the client: its status code, and what \<^verbatim>\<open>io.ReadAll\<close> gets from its
  body, the bytes or a read error.
\<close>

record http_Response =
  StatusCode :: nat
  ReadAll :: "error + string"

text \<open>
  The library calls of \<^verbatim>\<open>sendRequest\<close> whose result depends on more than the code
  shown: \<open>NewRequest_error method url\<close> is the error with which \<^verbatim>\<open>http.NewRequest\<close>
  rejects a method and a URL, if it does, and \<open>json_Unmarshal\<close> is \<^verbatim>\<open>json.Unmarshal\<close>
  from the bytes of a body into a \<^verbatim>\<open>PayTRResponse\<close>.
\<close>

record stdlib =
  NewRequest_error :: "string \<Rightarrow> string \<Rightarrow> error option"
  json_Unmarshal :: "string \<Rightarrow> error + PayTRResponse"

definition http_NewRequest ::
  "stdlib \<Rightarrow> string \<Rightarrow> string \<Rightarrow> (string \<times> json_value) list \<Rightarrow> error + http_Request" where
  "http_NewRequest L method url body =
     (case NewRequest_error L method url of
        Some err \<Rightarrow> Inl err
      | None \<Rightarrow> Inr \<lparr>Method = method, URL = url, Header = [], Body = body\<rparr>)"

text \<open>
  The service: its configuration and the injected client, \<^verbatim>\<open>HTTPClient.Do\<close>.  An
  operation calls the client at most once, so the client is what it answers to the
  request of that call.
\<close>

record service =
  config :: PayTRConfig
  client :: "http_Request \<Rightarrow> error + http_Response"

text \<open>
  What an operation does besides returning: the requests it hands to the client, and the
  payloads it hands to \<^verbatim>\<open>mapstructure.Decode\<close>, in the order of the calls.
\<close>

datatype event =
    Do http_Request
  | Decode "(string \<times> jvalue) list"

section \<open>The token generators\<close>

text \<open>
  \<^verbatim>\<open>generateToken\<close>.  The local \<^verbatim>\<open>hashStr\<close> is the result of \<^verbatim>\<open>fmt.Sprintf\<close> with ten
  \<^verbatim>\<open>%s\<close> verbs and nothing between them: the ten strings, one after the other.
\<close>

definition generateToken_hashStr :: "service \<Rightarrow> CommonPaymentRequest \<Rightarrow> string" where
  "generateToken_hashStr s req =
     config_MerchantID (config s) @
     UserIP req @
     MerchantOid req @
     Email req @
     FormatFloat_f2 (PaymentAmount req) @
     PaymentType req @
     InstallmentCount req @
     Currency req @
     TestMode req @
     NonThreeD req"

definition generateToken :: "service \<Rightarrow> CommonPaymentRequest \<Rightarrow> string" where
  "generateToken s req =
     (let hashStr = generateToken_hashStr s req;
          hmacStr = hashStr @ config_MerchantSalt (config s)
      in base64_EncodeToString
           (hmac_sha256 (bytes_of_string (config_MerchantKey (config s)))
              (bytes_of_string hmacStr)))"

definition generateSimpleToken :: "service \<Rightarrow> string \<Rightarrow> string" where
  "generateSimpleToken s data =
     (let hmacStr = data @ config_MerchantSalt (config s)
      in base64_EncodeToString
           (hmac_sha256 (bytes_of_string (config_MerchantKey (config s)))
              (bytes_of_string hmacStr)))"

section \<open>\<^verbatim>\<open>sendRequest\<close>\<close>

text \<open>
  The five calls of \<^verbatim>\<open>sendRequest\<close> in their order, each with its early return.  The
  second component of the result lists the calls of the client.  The status code of the
  response is not looked at.
\<close>

definition sendRequest ::
  "stdlib \<Rightarrow> service \<Rightarrow> payload \<Rightarrow> string \<Rightarrow> (error + PayTRResponse) \<times> event list" where
  "sendRequest L s req url =
     (case json_Marshal req of
        Inl err \<Rightarrow> (Inl err, [])
      | Inr jsonData \<Rightarrow>
     (case http_NewRequest L ''POST'' url jsonData of
        Inl err \<Rightarrow> (Inl err, [])
      | Inr httpReq0 \<Rightarrow>
     (let httpReq = httpReq0\<lparr>Header := [(''Content-Type'', ''application/json'')]\<rparr>
      in case client s httpReq of
        Inl err \<Rightarrow> (Inl err, [Do httpReq])
      | Inr resp \<Rightarrow>
     (case ReadAll resp of
        Inl err \<Rightarrow> (Inl err, [Do httpReq])
      | Inr body \<Rightarrow>
     (case json_Unmarshal L body of
        Inl err \<Rightarrow> (Inl err, [Do httpReq])
      | Inr result \<Rightarrow> (Inr result, [Do httpReq]))))))"

section \<open>Decoding the payload of a response\<close>

text \<open>
  \<^verbatim>\<open>mapstructure.Decode\<close> from a \<^verbatim>\<open>map[string]interface{}\<close> into a struct, with the
  default configuration.  The package is not part of the repository; this is its
  documented behaviour on the two result structs, which carry no \<^verbatim>\<open>mapstructure\<close> tags.
  A field is filled from the entry whose key is the name of the field, or else from the
  first entry visited whose key equals that name under \<^verbatim>\<open>strings.EqualFold\<close>; a field
  with no such entry, or with a nil value, keeps its zero value.  A string field accepts
  a string only, a slice field a slice only, and an element of a slice of structs a map
  only; anything else is an error, and the errors of all fields are collected.
\<close>

text \<open>
  Simple case folding of a UTF-8 string, as far as ASCII is concerned: a capital letter
  folds to its small letter, and so do the two characters beyond ASCII whose folding is
  an ASCII letter, the Kelvin sign (bytes E2 84 AA) to k and the long s (bytes C5 BF)
  to s.  Two strings of which one is ASCII, as every field name is, are equal under
  \<^verbatim>\<open>strings.EqualFold\<close> exactly when their foldings are equal.
\<close>

definition ascii_lower :: "char \<Rightarrow> char" where
  "ascii_lower c =
     (case map_of (zip ''ABCDEFGHIJKLMNOPQRSTUVWXYZ'' ''abcdefghijklmnopqrstuvwxyz'') c of
        Some l \<Rightarrow> l
      | None \<Rightarrow> c)"

fun simple_fold :: "string \<Rightarrow> string" where
  "simple_fold [] = []"
| "simple_fold (c # cs) =
     (if c = CHR 0xE2 \<and> take 2 cs = [CHR 0x84, CHR 0xAA] then CHR ''k'' # simple_fold (drop 2 cs)
      else if c = CHR 0xC5 \<and> take 1 cs = [CHR 0xBF] then CHR ''s'' # simple_fold (drop 1 cs)
      else ascii_lower c # simple_fold cs)"

definition EqualFold :: "string \<Rightarrow> string \<Rightarrow> bool" where
  "EqualFold s t = (simple_fold s = simple_fold t)"

definition map_field :: "(string \<times> jvalue) list \<Rightarrow> string \<Rightarrow> jvalue option" where
  "map_field m fieldName =
     (case map_of m fieldName of
        Some v \<Rightarrow> Some v
      | None \<Rightarrow> map_option snd (find (\<lambda>(k, v). EqualFold k fieldName) m))"

text \<open>A string field: \<open>None\<close> is the error of a value that is not a string.\<close>

definition decodeString :: "(string \<times> jvalue) list \<Rightarrow> string \<Rightarrow> string option" where
  "decodeString m fieldName =
     (case map_field m fieldName of
        None \<Rightarrow> Some ''''
      | Some JNull \<Rightarrow> Some ''''
      | Some (JString v) \<Rightarrow> Some v
      | Some _ \<Rightarrow> None)"

definition string_field :: "(string \<times> jvalue) list \<Rightarrow> string \<Rightarrow> string" where
  "string_field m fieldName = (case decodeString m fieldName of Some v \<Rightarrow> v | None \<Rightarrow> '''')"

definition string_errors :: "(string \<times> jvalue) list \<Rightarrow> string list \<Rightarrow> string list" where
  "string_errors m fieldNames = filter (\<lambda>n. decodeString m n = None) fieldNames"

definition SubmerchantPayment_fields :: "string list" where
  "SubmerchantPayment_fields =
     [''SubmerchantId'', ''SubmerchantPrice'', ''SubmerchantPayoutRate'',
      ''SubmerchantPayoutAmount'']"

fun decode_SubmerchantPayment :: "jvalue \<Rightarrow> SubmerchantPayment option" where
  "decode_SubmerchantPayment JNull =
     Some \<lparr>SubmerchantId = '''', SubmerchantPrice = '''', SubmerchantPayoutRate = '''',
           SubmerchantPayoutAmount = ''''\<rparr>"
| "decode_SubmerchantPayment (JObject m) =
     (if string_errors m SubmerchantPayment_fields \<noteq> [] then None
      else Some \<lparr>SubmerchantId = string_field m ''SubmerchantId'',
                 SubmerchantPrice = string_field m ''SubmerchantPrice'',
                 SubmerchantPayoutRate = string_field m ''SubmerchantPayoutRate'',
                 SubmerchantPayoutAmount = string_field m ''SubmerchantPayoutAmount''\<rparr>)"
| "decode_SubmerchantPayment _ = None"

definition Transaction_fields :: "string list" where
  "Transaction_fields =
     [''IslemTipi'', ''NetTutar'', ''KesintiTutari'', ''KesintiOrani'', ''IslemTutari'',
      ''OdemeTutari'', ''IslemTarihi'', ''ParaBirimi'', ''Taksit'', ''KartMarka'', ''KartNo'',
      ''SiparisNo'', ''OdemeTipi'']"

fun decode_Transaction :: "jvalue \<Rightarrow> Transaction option" where
  "decode_Transaction JNull =
     Some \<lparr>IslemTipi = '''', tx_NetTutar = '''', tx_KesintiTutari = '''', KesintiOrani = '''',
           IslemTutari = '''', OdemeTutari = '''', IslemTarihi = '''', ParaBirimi = '''',
           tx_Taksit = '''', tx_KartMarka = '''', KartNo = '''', SiparisNo = '''',
           tx_OdemeTipi = ''''\<rparr>"
| "decode_Transaction (JObject m) =
     (if string_errors m Transaction_fields \<noteq> [] then None
      else Some \<lparr>IslemTipi = string_field m ''IslemTipi'',
                 tx_NetTutar = string_field m ''NetTutar'',
                 tx_KesintiTutari = string_field m ''KesintiTutari'',
                 KesintiOrani = string_field m ''KesintiOrani'',
                 IslemTutari = string_field m ''IslemTutari'',
                 OdemeTutari = string_field m ''OdemeTutari'',
                 IslemTarihi = string_field m ''IslemTarihi'',
                 ParaBirimi = string_field m ''ParaBirimi'',
                 tx_Taksit = string_field m ''Taksit'',
                 tx_KartMarka = string_field m ''KartMarka'',
                 KartNo = string_field m ''KartNo'',
                 SiparisNo = string_field m ''SiparisNo'',
                 tx_OdemeTipi = string_field m ''OdemeTipi''\<rparr>)"
| "decode_Transaction _ = None"

text \<open>A field that is a slice of structs: \<open>None\<close> is an error in the slice or in an element.\<close>

definition decodeSlice ::
  "(jvalue \<Rightarrow> 'a option) \<Rightarrow> (string \<times> jvalue) list \<Rightarrow> string \<Rightarrow> 'a list option" where
  "decodeSlice decodeElem m fieldName =
     (case map_field m fieldName of
        None \<Rightarrow> Some []
      | Some JNull \<Rightarrow> Some []
      | Some (JArray vs) \<Rightarrow> those (map decodeElem vs)
      | Some _ \<Rightarrow> None)"

definition slice_field ::
  "(jvalue \<Rightarrow> 'a option) \<Rightarrow> (string \<times> jvalue) list \<Rightarrow> string \<Rightarrow> 'a list" where
  "slice_field decodeElem m fieldName =
     (case decodeSlice decodeElem m fieldName of Some vs \<Rightarrow> vs | None \<Rightarrow> [])"

definition slice_errors ::
  "(jvalue \<Rightarrow> 'a option) \<Rightarrow> (string \<times> jvalue) list \<Rightarrow> string \<Rightarrow> string list" where
  "slice_errors decodeElem m fieldName =
     (if decodeSlice decodeElem m fieldName = None then [fieldName] else [])"

definition StatusInquiryResponse_fields :: "string list" where
  "StatusInquiryResponse_fields =
     [''Status'', ''PaymentAmount'', ''PaymentTotal'', ''PaymentDate'', ''Currency'', ''NetTutar'',
      ''KesintiTutari'', ''Taksit'', ''KartMarka'', ''MaskedPan'', ''OdemeTipi'', ''TestMode'',
      ''Returns'', ''ErrNo'', ''ErrMsg'']"

definition decode_StatusInquiryResponse ::
  "(string \<times> jvalue) list \<Rightarrow> error + StatusInquiryResponse" where
  "decode_StatusInquiryResponse m =
     (let errors = string_errors m StatusInquiryResponse_fields @
                   slice_errors decode_SubmerchantPayment m ''SubmerchantPayments''
      in if errors \<noteq> [] then Inl (MapstructureError errors)
         else Inr \<lparr>inquiry_Status = string_field m ''Status'',
                    inquiry_PaymentAmount = string_field m ''PaymentAmount'',
                    PaymentTotal = string_field m ''PaymentTotal'',
                    PaymentDate = string_field m ''PaymentDate'',
                    inquiry_Currency = string_field m ''Currency'',
                    NetTutar = string_field m ''NetTutar'',
                    KesintiTutari = string_field m ''KesintiTutari'',
                    Taksit = string_field m ''Taksit'',
                    KartMarka = string_field m ''KartMarka'',
                    MaskedPan = string_field m ''MaskedPan'',
                    OdemeTipi = string_field m ''OdemeTipi'',
                    inquiry_TestMode = string_field m ''TestMode'',
                    Returns = string_field m ''Returns'',
                    ErrNo = string_field m ''ErrNo'',
                    ErrMsg = string_field m ''ErrMsg'',
                    SubmerchantPayments =
                      slice_field decode_SubmerchantPayment m ''SubmerchantPayments''\<rparr>)"

definition decode_TransactionDetailsResponse ::
  "(string \<times> jvalue) list \<Rightarrow> error + TransactionDetailsResponse" where
  "decode_TransactionDetailsResponse m =
     (let errors = string_errors m [''Status''] @
                   slice_errors decode_Transaction m ''Transactions'' @
                   string_errors m [''ErrMsg'']
      in if errors \<noteq> [] then Inl (MapstructureError errors)
         else Inr \<lparr>details_Status = string_field m ''Status'',
                    Transactions = slice_field decode_Transaction m ''Transactions'',
                    details_ErrMsg = string_field m ''ErrMsg''\<rparr>)"

section \<open>The operations of the service\<close>

text \<open>
  Each operation is the body of its Go method.  The value that the method passes to
  \<^verbatim>\<open>sendRequest\<close> has a definition of its own, named after the method, so that a
  property of the request sent can name it.  A request struct is passed by value: the
  assignments to its fields are updates of the method's own copy.
\<close>

subsection \<open>Payments\<close>

definition NewCardPayment_req :: "service \<Rightarrow> NewCardPaymentRequest \<Rightarrow> NewCardPaymentRequest" where
  "NewCardPayment_req s req =
     req\<lparr>PayTRToken := generateToken s (CommonPaymentRequest.truncate req)\<rparr>"

definition NewCardPayment ::
  "stdlib \<Rightarrow> service \<Rightarrow> NewCardPaymentRequest \<Rightarrow> (error + PayTRResponse) \<times> event list" where
  "NewCardPayment L s req =
     sendRequest L s (NewCardPayload (NewCardPayment_req s req)) (PayTRBaseURL @ ''/odeme'')"

definition SavedCardPayment_req ::
  "service \<Rightarrow> SavedCardPaymentRequest \<Rightarrow> SavedCardPaymentRequest" where
  "SavedCardPayment_req s req =
     req\<lparr>PayTRToken := generateToken s (CommonPaymentRequest.truncate req)\<rparr>"

definition SavedCardPayment ::
  "stdlib \<Rightarrow> service \<Rightarrow> SavedCardPaymentRequest \<Rightarrow> (error + PayTRResponse) \<times> event list" where
  "SavedCardPayment L s req =
     sendRequest L s (SavedCardPayload (SavedCardPayment_req s req)) (PayTRBaseURL @ ''/odeme'')"

definition RecurringPayment_req ::
  "service \<Rightarrow> SavedCardPaymentRequest \<Rightarrow> SavedCardPaymentRequest" where
  "RecurringPayment_req s req =
     (let req = req\<lparr>saved_RecurringPayment := ''1''\<rparr>
      in req\<lparr>PayTRToken := generateToken s (CommonPaymentRequest.truncate req)\<rparr>)"

definition RecurringPayment ::
  "stdlib \<Rightarrow> service \<Rightarrow> SavedCardPaymentRequest \<Rightarrow> (error + PayTRResponse) \<times> event list" where
  "RecurringPayment L s req =
     sendRequest L s (SavedCardPayload (RecurringPayment_req s req)) (PayTRBaseURL @ ''/odeme'')"

definition RefundPayment_hashStr :: "service \<Rightarrow> RefundRequest \<Rightarrow> string" where
  "RefundPayment_hashStr s req =
     config_MerchantID (config s) @ refund_MerchantOid req @ Sprintf_2f (ReturnAmount req)"

definition RefundPayment_req :: "service \<Rightarrow> RefundRequest \<Rightarrow> payload" where
  "RefundPayment_req s req =
     RefundPayload (config_MerchantID (config s)) (refund_MerchantOid req) (ReturnAmount req)
       (generateSimpleToken s (RefundPayment_hashStr s req)) (ReferenceNo req)"

definition RefundPayment ::
  "stdlib \<Rightarrow> service \<Rightarrow> RefundRequest \<Rightarrow> (error + PayTRResponse) \<times> event list" where
  "RefundPayment L s req =
     sendRequest L s (RefundPayment_req s req) (PayTRBaseURL @ ''/odeme/iade'')"

subsection \<open>Inquiries\<close>

definition MerchantStatusInquiry_req :: "service \<Rightarrow> StatusInquiryRequest \<Rightarrow> payload" where
  "MerchantStatusInquiry_req s req =
     StatusInquiryPayload (config_MerchantID (config s)) (inquiry_MerchantOid req)
       (generateSimpleToken s (config_MerchantID (config s) @ inquiry_MerchantOid req))"

definition MerchantStatusInquiry ::
  "stdlib \<Rightarrow> service \<Rightarrow> StatusInquiryRequest \<Rightarrow> (error + StatusInquiryResponse) \<times> event list" where
  "MerchantStatusInquiry L s req =
     (case sendRequest L s (MerchantStatusInquiry_req s req)
             (PayTRBaseURL @ ''/odeme/durum-sorgu'') of
        (Inl err, evs) \<Rightarrow> (Inl err, evs)
      | (Inr paytrResp, evs) \<Rightarrow>
          if Status paytrResp \<noteq> ''success'' then (Inl (PayTR_error (Message paytrResp)), evs)
          else
            (case decode_StatusInquiryResponse (Data paytrResp) of
               Inl err \<Rightarrow> (Inl (Error_decoding_response err), evs @ [Decode (Data paytrResp)])
             | Inr result \<Rightarrow> (Inr result, evs @ [Decode (Data paytrResp)])))"

definition GetTransactionDetails_req :: "service \<Rightarrow> TransactionDetailsRequest \<Rightarrow> payload" where
  "GetTransactionDetails_req s req =
     TransactionDetailsPayload (config_MerchantID (config s)) (StartDate req) (EndDate req)
       (Dummy req)
       (generateSimpleToken s (config_MerchantID (config s) @ StartDate req @ EndDate req))"

definition GetTransactionDetails ::
  "stdlib \<Rightarrow> service \<Rightarrow> TransactionDetailsRequest \<Rightarrow>
     (error + TransactionDetailsResponse) \<times> event list" where
  "GetTransactionDetails L s req =
     (case sendRequest L s (GetTransactionDetails_req s req)
             (PayTRBaseURL @ ''/rapor/islem-dokumu'') of
        (Inl err, evs) \<Rightarrow> (Inl err, evs)
      | (Inr paytrResp, evs) \<Rightarrow>
          (case decode_TransactionDetailsResponse (Data paytrResp) of
             Inl err \<Rightarrow> (Inl (Error_decoding_response err), evs @ [Decode (Data paytrResp)])
           | Inr result \<Rightarrow> (Inr result, evs @ [Decode (Data paytrResp)])))"

subsection \<open>Cards\<close>

definition GetBinDetails_req :: "service \<Rightarrow> string \<Rightarrow> payload" where
  "GetBinDetails_req s binNumber =
     BinDetailsPayload (config_MerchantID (config s)) binNumber
       (generateSimpleToken s (binNumber @ config_MerchantID (config s)))"

definition GetBinDetails ::
  "stdlib \<Rightarrow> service \<Rightarrow> string \<Rightarrow> (error + PayTRResponse) \<times> event list" where
  "GetBinDetails L s binNumber =
     sendRequest L s (GetBinDetails_req s binNumber) (PayTRBaseURL @ ''/odeme/api/bin-detail'')"

definition GetSavedCards_req :: "service \<Rightarrow> string \<Rightarrow> payload" where
  "GetSavedCards_req s utoken =
     SavedCardsPayload (config_MerchantID (config s)) utoken (generateSimpleToken s utoken)"

definition GetSavedCards ::
  "stdlib \<Rightarrow> service \<Rightarrow> string \<Rightarrow> (error + PayTRResponse) \<times> event list" where
  "GetSavedCards L s utoken =
     sendRequest L s (GetSavedCards_req s utoken) (PayTRBaseURL @ ''/odeme/capi/list'')"

definition DeleteSavedCard_req :: "service \<Rightarrow> string \<Rightarrow> string \<Rightarrow> payload" where
  "DeleteSavedCard_req s utoken ctoken =
     DeleteSavedCardPayload (config_MerchantID (config s)) utoken ctoken
       (generateSimpleToken s (utoken @ ctoken))"

definition DeleteSavedCard ::
  "stdlib \<Rightarrow> service \<Rightarrow> string \<Rightarrow> string \<Rightarrow> (error + PayTRResponse) \<times> event list" where
  "DeleteSavedCard L s utoken ctoken =
     sendRequest L s (DeleteSavedCard_req s utoken ctoken) (PayTRBaseURL @ ''/odeme/capi/delete'')"

text \<open>The float64 constant 1, the amount that \<^verbatim>\<open>AddNewCard\<close> charges.\<close>

definition float64_one :: float64 where
  "float64_one = 0x3FF0000000000000"

definition AddNewCard_paytrReq :: "service \<Rightarrow> AddNewCardRequest \<Rightarrow> NewCardPaymentRequest" where
  "AddNewCard_paytrReq s req =
     \<lparr>MerchantID = config_MerchantID (config s),
      UserIP = add_UserIP req,
      MerchantOid = add_MerchantOid req,
      Email = add_Email req,
      PaymentAmount = float64_one,
      PaymentType = ''card'',
      Currency = ''TRY'',
      TestMode = ''1'',
      NonThreeD = ''0'',
      MerchantOkURL = add_MerchantOkURL req,
      MerchantFailURL = add_MerchantFailURL req,
      UserName = add_CardOwner req,
      UserAddress = add_UserAddress req,
      UserPhone = add_UserPhone req,
      UserBasket = ''[[\"Card Validation\", \"1\", 1]]'',
      DebugOn = ''1'',
      ClientLang = ''tr'',
      PayTRToken = '''',
      InstallmentCount = ''0'',
      CardOwner = add_CardOwner req,
      CardNumber = add_CardNumber req,
      ExpiryMonth = add_ExpiryMonth req,
      ExpiryYear = add_ExpiryYear req,
      CVV = add_CVV req,
      CardType = add_CardType req,
      StoreCard = ''1''\<rparr>"

definition AddNewCard_req :: "service \<Rightarrow> AddNewCardRequest \<Rightarrow> NewCardPaymentRequest" where
  "AddNewCard_req s req =
     (let paytrReq = AddNewCard_paytrReq s req
      in paytrReq\<lparr>PayTRToken := generateToken s (CommonPaymentRequest.truncate paytrReq)\<rparr>)"

definition AddNewCard ::
  "stdlib \<Rightarrow> service \<Rightarrow> AddNewCardRequest \<Rightarrow> (error + PayTRResponse) \<times> event list" where
  "AddNewCard L s req =
     sendRequest L s (NewCardPayload (AddNewCard_req s req)) (PayTRBaseURL @ ''/odeme'')"

section \<open>The token schemes in the words of the specification\<close>

text \<open>
  The primary scheme as the specification words it: the configured merchant ID, then the
  user IP, the merchant order ID, the email, the amount with two decimals, the payment
  type, the installment count, the currency, the test-mode flag and the non-3D flag; the
  salt last; HMAC-SHA256 under the merchant key; base64.
\<close>

definition primary_scheme_token :: "PayTRConfig \<Rightarrow> CommonPaymentRequest \<Rightarrow> string" where
  "primary_scheme_token cfg req =
     base64_EncodeToString
       (hmac_sha256 (bytes_of_string (config_MerchantKey cfg))
          (bytes_of_string
             (config_MerchantID cfg @ UserIP req @ MerchantOid req @ Email req @
              FormatFloat_f2 (PaymentAmount req) @ PaymentType req @ InstallmentCount req @
              Currency req @ TestMode req @ NonThreeD req @ config_MerchantSalt cfg)))"


text \<open>
  The nine fields of a request that are signed, as the strings that enter the hash input,
  in the order in which they enter it.
\<close>

definition signed_fields :: "CommonPaymentRequest \<Rightarrow> string list" where
  "signed_fields req =
     [UserIP req, MerchantOid req, Email req, FormatFloat_f2 (PaymentAmount req),
      PaymentType req, InstallmentCount req, Currency req, TestMode req, NonThreeD req]"

text \<open>
  A string that ends in a point and exactly two digits, after digits only and at least
  one of them, with an optional minus sign in front.
\<close>

definition is_digit :: "char \<Rightarrow> bool" where
  "is_digit c = (c \<in> set ''0123456789'')"

definition two_fraction_digits :: "string \<Rightarrow> bool" where
  "two_fraction_digits str =
     (let u = (if str \<noteq> [] \<and> hd str = CHR ''-'' then tl str else str); n = length u
      in 4 \<le> n \<and> list_all is_digit (take (n - 3) u) \<and> u ! (n - 3) = CHR ''.'' \<and>
         is_digit (u ! (n - 2)) \<and> is_digit (u ! (n - 1)))"

text \<open>The digits that \<open>FormatFloat_f2\<close> prints for a finite value, without the sign.\<close>

definition finite_rendering :: "float64 \<Rightarrow> string" where
  "finite_rendering x =
     (let h = (if float64_exp x = 0 then hundredths (float64_mant x) 1
               else hundredths (float64_mant x + 2 ^ 52) (float64_exp x))
      in decimal (h div 100) @ ''.'' @ [digit (h div 10), digit h])"

section \<open>Values for the examples\<close>

text \<open>The credentials of the repository's tests.\<close>

definition test_config :: PayTRConfig where
  "test_config =
     \<lparr>config_MerchantID = ''test_merchant'', config_MerchantKey = ''test_key'',
      config_MerchantSalt = ''test_salt''\<rparr>"

text \<open>
  The mock client of the tests: whatever the request, status 200 and a fixed body.  With
  it goes a \<^verbatim>\<open>json.Unmarshal\<close> that knows this one body and reads the given envelope
  from it.
\<close>

definition mock_service :: "string \<Rightarrow> service" where
  "mock_service body =
     \<lparr>config = test_config, client = (\<lambda>req. Inr \<lparr>StatusCode = 200, ReadAll = Inr body\<rparr>)\<rparr>"

definition mock_stdlib :: "string \<Rightarrow> PayTRResponse \<Rightarrow> stdlib" where
  "mock_stdlib body envelope =
     \<lparr>NewRequest_error = (\<lambda>method url. None),
      json_Unmarshal =
        (\<lambda>b. if b = body then Inr envelope else Inl (LibError ''invalid character''))\<rparr>"

text \<open>Some amounts: 100, the float64 nearest to 99.999, those nearest to 100.001 and to
  100.002, 50, and a NaN.\<close>

definition float64_100 :: float64 where
  "float64_100 = 0x4059000000000000"

definition float64_99_999 :: float64 where
  "float64_99_999 = 0x4058FFEF9DB22D0E"

definition float64_100_001 :: float64 where
  "float64_100_001 = 0x40590010624DD2F2"

definition float64_100_002 :: float64 where
  "float64_100_002 = 0x40590020C49BA5E3"

definition float64_50 :: float64 where
  "float64_50 = 0x4049000000000000"

definition float64_NaN :: float64 where
  "float64_NaN = 0x7FF8000000000000"

text \<open>The common fields of the request of \<^verbatim>\<open>TestNewCardPayment\<close>.\<close>

definition test_common :: CommonPaymentRequest where
  "test_common =
     \<lparr>MerchantID = ''test_merchant'', UserIP = ''127.0.0.1'', MerchantOid = ''test_order_123'',
      Email = ''test@example.com'', PaymentAmount = float64_100, PaymentType = ''card'',
      Currency = ''TRY'', TestMode = ''1'', NonThreeD = '''', MerchantOkURL = '''',
      MerchantFailURL = '''', UserName = '''', UserAddress = '''', UserPhone = '''',
      UserBasket = '''', DebugOn = '''', ClientLang = '''', PayTRToken = '''',
      InstallmentCount = ''''\<rparr>"

text \<open>The request of \<^verbatim>\<open>TestRefundPayment\<close>.\<close>

definition test_refund :: RefundRequest where
  "test_refund =
     \<lparr>refund_MerchantOid = ''test_order_789'', ReturnAmount = float64_50, ReferenceNo = ''''\<rparr>"

text \<open>A request to add a card, of a user who is not the owner of the card.\<close>

definition add_card_example :: AddNewCardRequest where
  "add_card_example =
     \<lparr>add_UserID = ''test_user'', add_CardOwner = ''Bob'', add_CardNumber = ''4111111111111111'',
      add_ExpiryMonth = ''12'', add_ExpiryYear = ''2025'', add_CVV = ''123'', add_CardType = '''',
      add_UserIP = ''127.0.0.1'', add_MerchantOid = ''test_order_1'',
      add_Email = ''alice@example.com'', add_UserName = ''Alice'', add_UserAddress = '''',
      add_UserPhone = '''', add_MerchantOkURL = '''', add_MerchantFailURL = '''',
      add_ClientLang = ''en'', add_Currency = ''USD'', add_PaymentAmount = float64_100\<rparr>"

text \<open>The test request with another user IP and another order ID.\<close>

definition boundary_request :: "string \<Rightarrow> string \<Rightarrow> CommonPaymentRequest" where
  "boundary_request ip oid = test_common\<lparr>UserIP := ip, MerchantOid := oid\<rparr>"

text \<open>
  The test request as a caller may fill it who sets a merchant ID of its own and leaves
  a token from an earlier call in it.
\<close>

definition foreign_common :: CommonPaymentRequest where
  "foreign_common = test_common\<lparr>MerchantID := ''other_merchant'', PayTRToken := ''stale''\<rparr>"

definition foreign_new_card :: NewCardPaymentRequest where
  "foreign_new_card =
     CommonPaymentRequest.extend foreign_common
       (NewCardPaymentRequest.fields ''John Doe'' ''4111111111111111'' ''12'' ''2025'' ''123'' '''' '''')"

text \<open>
  The envelope of a gateway that refuses an inquiry, with the body that carries it, and
  the inquiry of \<^verbatim>\<open>TestMerchantStatusInquiry\<close>.
\<close>

definition failed_envelope :: PayTRResponse where
  "failed_envelope = \<lparr>Status = ''failed'', Message = ''Order not found'', Data = []\<rparr>"

definition failed_body :: string where
  "failed_body = ''{\"status\":\"failed\",\"message\":\"Order not found\"}''"

definition test_inquiry :: StatusInquiryRequest where
  "test_inquiry = \<lparr>inquiry_MerchantOid = ''test_order_123''\<rparr>"

text \<open>
  The envelope of \<^verbatim>\<open>TestMerchantStatusInquiry\<close>, whose payload has a status of its
  own, and the envelope of \<^verbatim>\<open>TestSavedCardPayment\<close>, which has no payload; each with
  the body that carries it.
\<close>

definition inquiry_envelope :: PayTRResponse where
  "inquiry_envelope =
     \<lparr>Status = ''success'', Message = ''Merchant status retrieved'',
      Data = [(''status'', JString ''success''), (''payment_amount'', JString ''100.00''),
              (''currency'', JString ''TRY'')]\<rparr>"

definition inquiry_body :: string where
  "inquiry_body =
     ''{\"status\":\"success\",\"message\":\"Merchant status retrieved\",\"data\":{\"currency\":\"TRY\",\"payment_amount\":\"100.00\",\"status\":\"success\"}}''"

definition plain_envelope :: PayTRResponse where
  "plain_envelope =
     \<lparr>Status = ''success'', Message = ''Saved card payment successful'', Data = []\<rparr>"

definition plain_body :: string where
  "plain_body = ''{\"status\":\"success\",\"message\":\"Saved card payment successful\"}''"

text \<open>The paths of the seven endpoints.\<close>

definition endpoints :: "string list" where
  "endpoints =
     [''/odeme'', ''/odeme/iade'', ''/odeme/durum-sorgu'', ''/rapor/islem-dokumu'',
      ''/odeme/api/bin-detail'', ''/odeme/capi/list'', ''/odeme/capi/delete'']"

text \<open>The result struct with every field at its zero value.\<close>

definition zero_StatusInquiryResponse :: StatusInquiryResponse where
  "zero_StatusInquiryResponse =
     \<lparr>inquiry_Status = '''', inquiry_PaymentAmount = '''', PaymentTotal = '''', PaymentDate = '''',
      inquiry_Currency = '''', NetTutar = '''', KesintiTutari = '''', Taksit = '''',
      KartMarka = '''', MaskedPan = '''', OdemeTipi = '''', inquiry_TestMode = '''',
      Returns = '''', ErrNo = '''', ErrMsg = '''', SubmerchantPayments = []\<rparr>"

text \<open>The request of \<^verbatim>\<open>TestNewCardPayment\<close>, and the same request with a NaN for its amount.\<close>

definition test_new_card :: NewCardPaymentRequest where
  "test_new_card =
     CommonPaymentRequest.extend test_common
       (NewCardPaymentRequest.fields ''John Doe'' ''4111111111111111'' ''12'' ''2025'' ''123'' '''' '''')"

definition NaN_new_card :: NewCardPaymentRequest where
  "NaN_new_card = test_new_card\<lparr>PaymentAmount := float64_NaN\<rparr>"

text \<open>A request for a transaction report, and its result with every field at its zero value.\<close>

definition test_details :: TransactionDetailsRequest where
  "test_details = \<lparr>StartDate = ''2023-01-01'', EndDate = ''2023-12-31'', Dummy = 0\<rparr>"

definition zero_TransactionDetailsResponse :: TransactionDetailsResponse where
  "zero_TransactionDetailsResponse =
     \<lparr>details_Status = '''', Transactions = [], details_ErrMsg = ''''\<rparr>"

text \<open>The test request with a merchant ID that ends in a byte that is not UTF-8.\<close>

definition invalid_merchant_new_card :: NewCardPaymentRequest where
  "invalid_merchant_new_card = test_new_card\<lparr>MerchantID := ''other'' @ [CHR 0xFF]\<rparr>"

section \<open>Amounts are printed with two decimals\<close>

declare decimal.simps [simp del]

lemma is_digit_digit: "is_digit (digit d)"
proof -
  have "d mod 10 < length ''0123456789''" by simp
  then have "''0123456789'' ! (d mod 10) \<in> set ''0123456789''" by (rule nth_mem)
  then show ?thesis by (simp only: is_digit_def digit_def)
qed

lemma decimal_digits: "decimal n \<noteq> [] \<and> list_all is_digit (decimal n)"
proof (induction n rule: decimal.induct)
  case (1 n)
  show ?case
  proof (cases "n < 10")
    case True
    then have "decimal n = [digit n]" by (simp add: decimal.simps)
    then show ?thesis by (simp add: is_digit_digit)
  next
    case False
    then have "decimal n = decimal (n div 10) @ [digit (n mod 10)]"
      by (subst decimal.simps) simp
    with 1 False show ?thesis by (simp add: is_digit_digit)
  qed
qed

lemma is_digit_not_letter:
  "is_digit c \<Longrightarrow> c \<noteq> CHR ''-'' \<and> c \<noteq> CHR ''+'' \<and> c \<noteq> CHR ''I'' \<and> c \<noteq> CHR ''N''"
  by (auto simp: is_digit_def)

lemma two_fraction_digits_plain:
  assumes "ip \<noteq> []" "list_all is_digit ip" "is_digit d1" "is_digit d2"
  shows "two_fraction_digits (ip @ ''.'' @ [d1, d2])"
proof -
  from assms obtain c cs where ip: "ip = c # cs" by (cases ip) auto
  with assms have "c \<noteq> CHR ''-''" using is_digit_not_letter by auto
  with assms ip show ?thesis
    by (simp add: two_fraction_digits_def nth_append)
qed

lemma two_fraction_digits_minus:
  assumes "ip \<noteq> []" "list_all is_digit ip" "is_digit d1" "is_digit d2"
  shows "two_fraction_digits (''-'' @ ip @ ''.'' @ [d1, d2])"
proof -
  from assms obtain c cs where "ip = c # cs" by (cases ip) auto
  with assms show ?thesis
    by (simp add: two_fraction_digits_def nth_append)
qed

lemma FormatFloat_f2_finite:
  assumes "float64_exp x \<noteq> 2047"
  shows "FormatFloat_f2 x = (if float64_neg x then ''-'' else '''') @ finite_rendering x"
  using assms by (simp add: FormatFloat_f2_def finite_rendering_def Let_def)

lemma two_fraction_digits_FormatFloat:
  assumes "float64_exp x \<noteq> 2047"
  shows "two_fraction_digits (FormatFloat_f2 x)"
proof -
  obtain q d1 d2 where r: "finite_rendering x = decimal q @ ''.'' @ [digit d1, digit d2]"
    by (simp add: finite_rendering_def Let_def)
  show ?thesis
  proof (cases "float64_neg x")
    case True
    then have "FormatFloat_f2 x = ''-'' @ decimal q @ ''.'' @ [digit d1, digit d2]"
      using FormatFloat_f2_finite [OF assms] r by simp
    then show ?thesis
      using two_fraction_digits_minus [of "decimal q" "digit d1" "digit d2"] decimal_digits [of q]
      by (simp add: is_digit_digit)
  next
    case False
    then have "FormatFloat_f2 x = decimal q @ ''.'' @ [digit d1, digit d2]"
      using FormatFloat_f2_finite [OF assms] r by simp
    then show ?thesis
      using two_fraction_digits_plain [of "decimal q" "digit d1" "digit d2"] decimal_digits [of q]
      by (simp add: is_digit_digit)
  qed
qed

text \<open>The two ways in which the source formats an amount print the same string.\<close>

lemma Sprintf_2f_eq: "Sprintf_2f v = FormatFloat_f2 v"
proof (cases "float64_exp v = 2047")
  case True
  then show ?thesis by (simp add: Sprintf_2f_def FormatFloat_f2_def Let_def)
next
  case False
  define q where "q = (if float64_exp v = 0 then hundredths (float64_mant v) 1
               else hundredths (float64_mant v + 2 ^ 52) (float64_exp v)) div 100"
  obtain c cs' where dq: "decimal q = c # cs'"
    using decimal_digits [of q] by (cases "decimal q") auto
  with decimal_digits [of q] have c: "is_digit c" by simp
  from dq obtain cs where d: "finite_rendering v = c # cs"
    by (simp add: finite_rendering_def Let_def q_def)
  from c have n: "c \<noteq> CHR ''-''" "c \<noteq> CHR ''+''" "c \<noteq> CHR ''I''" "c \<noteq> CHR ''N''"
    using is_digit_not_letter by auto
  show ?thesis
  proof (cases "float64_neg v")
    case True
    then have "FormatFloat_f2 v = CHR ''-'' # c # cs"
      using FormatFloat_f2_finite [OF False] d by simp
    then show ?thesis using n by (simp add: Sprintf_2f_def Let_def)
  next
    case False
    then have "FormatFloat_f2 v = c # cs"
      using FormatFloat_f2_finite [OF \<open>float64_exp v \<noteq> 2047\<close>] d by simp
    then show ?thesis using n by (simp add: Sprintf_2f_def Let_def)
  qed
qed

lemmas float64_fields = float64_neg_def float64_exp_def float64_mant_def

lemmas FormatFloat_eval =
  FormatFloat_f2_def float64_fields hundredths_def round_half_even_def digit_def decimal.simps

lemma FormatFloat_f2_100: "FormatFloat_f2 float64_100 = ''100.00''"
  by (simp add: float64_100_def FormatFloat_eval)

lemma FormatFloat_f2_99_999: "FormatFloat_f2 float64_99_999 = ''100.00''"
  by (simp add: float64_99_999_def FormatFloat_eval)

lemma FormatFloat_f2_NaN: "FormatFloat_f2 float64_NaN = ''NaN''"
  by (simp add: float64_NaN_def FormatFloat_f2_def float64_fields)

text \<open>
  Claim C7, as amended.  For every amount that is finite (its exponent field is not
  2047), the amount in the hash input of the primary scheme and the amount in the token
  input of a refund consist of an optional minus sign, digits, a point and exactly two
  digits, and the two formatting calls of the source print an amount alike.  The amount
  100 is printed as 100.00, and so is the float64 nearest to 99.999.
\<close>

theorem amount_two_fraction_digits:
  assumes "float64_exp (PaymentAmount req) \<noteq> 2047"
    and "float64_exp (ReturnAmount refund) \<noteq> 2047"
  shows "generateToken_hashStr s req =
           (config_MerchantID (config s) @ UserIP req @ MerchantOid req @ Email req) @
           FormatFloat_f2 (PaymentAmount req) @
           (PaymentType req @ InstallmentCount req @ Currency req @ TestMode req @ NonThreeD req) \<and>
         two_fraction_digits (FormatFloat_f2 (PaymentAmount req)) \<and>
         RefundPayment_hashStr s refund =
           (config_MerchantID (config s) @ refund_MerchantOid refund) @
           Sprintf_2f (ReturnAmount refund) \<and>
         two_fraction_digits (Sprintf_2f (ReturnAmount refund)) \<and>
         Sprintf_2f (ReturnAmount refund) = FormatFloat_f2 (ReturnAmount refund) \<and>
         FormatFloat_f2 float64_100 = ''100.00'' \<and>
         FormatFloat_f2 float64_99_999 = ''100.00''"
proof -
  have "two_fraction_digits (FormatFloat_f2 (PaymentAmount req))"
    using assms(1) by (rule two_fraction_digits_FormatFloat)
  moreover have "two_fraction_digits (Sprintf_2f (ReturnAmount refund))"
    using assms(2) by (simp add: Sprintf_2f_eq two_fraction_digits_FormatFloat)
  ultimately show ?thesis
    by (simp add: generateToken_hashStr_def RefundPayment_hashStr_def Sprintf_2f_eq
        FormatFloat_f2_100 FormatFloat_f2_99_999)
qed

theorem amount_two_fraction_digits_witness:
  "float64_exp (PaymentAmount test_common) \<noteq> 2047 \<and>
   float64_exp (ReturnAmount test_refund) \<noteq> 2047 \<and>
   two_fraction_digits (FormatFloat_f2 (PaymentAmount test_common)) \<and>
   two_fraction_digits (Sprintf_2f (ReturnAmount test_refund))"
proof -
  have a: "float64_exp (PaymentAmount test_common) \<noteq> 2047"
    by (simp add: test_common_def float64_100_def float64_exp_def)
  have b: "float64_exp (ReturnAmount test_refund) \<noteq> 2047"
    by (simp add: test_refund_def float64_50_def float64_exp_def)
  from amount_two_fraction_digits [OF a b, of "mock_service []"]
  have "two_fraction_digits (FormatFloat_f2 (PaymentAmount test_common))"
    and "two_fraction_digits (Sprintf_2f (ReturnAmount test_refund))"
    by blast+
  with a b show ?thesis by blast
qed

text \<open>
  Claim C7 as stated fails at an amount that is not finite: a NaN is printed as its
  name, in the hash input of the primary scheme and in the token input of a refund.
\<close>

theorem amount_NaN_counterexample:
  "FormatFloat_f2 float64_NaN = ''NaN'' \<and>
   Sprintf_2f float64_NaN = ''NaN'' \<and>
   \<not> two_fraction_digits ''NaN'' \<and>
   generateToken_hashStr (mock_service []) (test_common\<lparr>PaymentAmount := float64_NaN\<rparr>) =
     ''test_merchant127.0.0.1test_order_123test@example.comNaNcardTRY1'' \<and>
   RefundPayment_hashStr (mock_service []) (test_refund\<lparr>ReturnAmount := float64_NaN\<rparr>) =
     ''test_merchanttest_order_789NaN''"
  by (simp add: Sprintf_2f_eq FormatFloat_f2_NaN two_fraction_digits_def
      generateToken_hashStr_def RefundPayment_hashStr_def mock_service_def test_config_def
      test_common_def test_refund_def)

section \<open>Strings that the document holds unchanged\<close>

lemma json_string_valid: "utf8_ValidString s \<Longrightarrow> json_string s = s"
proof (induction s rule: json_string.induct)
  case 1
  show ?case by simp
next
  case (2 c cs)
  let ?w = "DecodeRune_width (c # cs)"
  from "2.prems" have w: "?w \<noteq> 0" and v: "utf8_ValidString (drop (?w - 1) cs)"
    by (simp_all add: Let_def)
  from "2.IH"(2) [OF refl w v] have "json_string (drop (?w - 1) cs) = drop (?w - 1) cs" .
  with w show ?case by (simp add: Let_def)
qed

lemma ascii_valid:
  "list_all (\<lambda>c. (of_char c :: nat) < 128) s \<Longrightarrow> utf8_ValidString s"
  by (induction s) (simp_all add: DecodeRune_width_def)

lemma b64_index: "unat (v AND (0x3F :: byte)) < 64"
proof -
  have "unat (v AND 0x3F) \<le> unat (0x3F :: byte)"
    by (rule word_and_le1 [THEN word_le_nat_alt [THEN iffD1]])
  then show ?thesis by simp
qed

lemma encodeStd_ascii: "list_all (\<lambda>c. (of_char c :: nat) < 128) encodeStd"
  by (simp add: encodeStd_def)

lemma b64_ascii: "(of_char (b64 v) :: nat) < 128"
proof -
  have "unat (v AND 0x3F) < length encodeStd"
    using b64_index [of v] by (simp add: encodeStd_def)
  then have "encodeStd ! unat (v AND 0x3F) \<in> set encodeStd" by (rule nth_mem)
  with encodeStd_ascii show ?thesis
    by (simp only: b64_def list_all_iff)
qed

lemma base64_ascii: "list_all (\<lambda>c. (of_char c :: nat) < 128) (base64_EncodeToString bs)"
  by (induction bs rule: base64_EncodeToString.induct) (simp_all add: b64_ascii)

lemma json_string_base64: "json_string (base64_EncodeToString bs) = base64_EncodeToString bs"
  by (rule json_string_valid, rule ascii_valid, rule base64_ascii)

lemma json_string_generateToken: "json_string (generateToken s req) = generateToken s req"
  by (simp add: generateToken_def Let_def json_string_base64)

lemma json_string_examples:
  "json_string ''Bob'' = ''Bob''"
  "json_string ''other_merchant'' = ''other_merchant''"
  "utf8_ValidString ''other_merchant''"
  "json_string (''other'' @ [CHR 0xFF]) = ''other'' @ replacement_char"
  by code_simp+

declare json_string.simps [simp del] utf8_ValidString.simps [simp del]

section \<open>The code against the token schemes of the specification\<close>

lemma generateToken_eq_primary: "generateToken s req = primary_scheme_token (config s) req"
  by (simp add: generateToken_def generateToken_hashStr_def primary_scheme_token_def)


lemma truncate_RecurringPayment_update:
  "CommonPaymentRequest.truncate (req\<lparr>saved_RecurringPayment := v\<rparr>) = CommonPaymentRequest.truncate req"
  by (simp add: CommonPaymentRequest.truncate_def)

lemma paytr_token_member:
  "map_of (json_members (NewCardPayload r)) ''paytr_token'' = Some (JSONString (json_string (PayTRToken r)))"
  "map_of (json_members (SavedCardPayload r')) ''paytr_token'' = Some (JSONString (json_string (PayTRToken r')))"
  by (simp_all add: common_members_def)

lemma merchant_id_member:
  "map_of (json_members (NewCardPayload r)) ''merchant_id'' = Some (JSONString (json_string (MerchantID r)))"
  "map_of (json_members (SavedCardPayload r')) ''merchant_id'' = Some (JSONString (json_string (MerchantID r')))"
  by (simp_all add: common_members_def)

text \<open>
  Claim C1.  The token that \<^verbatim>\<open>generateToken\<close> computes is the token of the primary scheme
  of the specification, for every request and every configuration, and it is the token
  that \<^verbatim>\<open>NewCardPayment\<close>, \<^verbatim>\<open>SavedCardPayment\<close> and \<^verbatim>\<open>RecurringPayment\<close> store in the
  request they send, where it is the member \<^verbatim>\<open>paytr_token\<close> of the JSON object.
\<close>

theorem primary_token_scheme:
  "generateToken s req = primary_scheme_token (config s) req \<and>
   PayTRToken (NewCardPayment_req s newReq) =
     primary_scheme_token (config s) (CommonPaymentRequest.truncate newReq) \<and>
   PayTRToken (SavedCardPayment_req s savedReq) =
     primary_scheme_token (config s) (CommonPaymentRequest.truncate savedReq) \<and>
   PayTRToken (RecurringPayment_req s savedReq) =
     primary_scheme_token (config s) (CommonPaymentRequest.truncate savedReq) \<and>
   map_of (json_members (NewCardPayload (NewCardPayment_req s newReq))) ''paytr_token'' =
     Some (JSONString (primary_scheme_token (config s) (CommonPaymentRequest.truncate newReq))) \<and>
   map_of (json_members (SavedCardPayload (SavedCardPayment_req s savedReq))) ''paytr_token'' =
     Some (JSONString (primary_scheme_token (config s) (CommonPaymentRequest.truncate savedReq))) \<and>
   map_of (json_members (SavedCardPayload (RecurringPayment_req s savedReq))) ''paytr_token'' =
     Some (JSONString (primary_scheme_token (config s) (CommonPaymentRequest.truncate savedReq)))"
proof -
  have "json_string (primary_scheme_token (config s) r) = primary_scheme_token (config s) r" for r
    by (simp add: primary_scheme_token_def json_string_base64)
  then show ?thesis
    by (simp add: generateToken_eq_primary NewCardPayment_req_def SavedCardPayment_req_def
        RecurringPayment_req_def truncate_RecurringPayment_update paytr_token_member
        del: json_members.simps)
qed


section \<open>Recurring payments and the addition of a card\<close>

lemma RecurringPayment_req_eq:
  "RecurringPayment_req s req = (SavedCardPayment_req s req)\<lparr>saved_RecurringPayment := ''1''\<rparr>"
  by (cases req)
     (simp add: RecurringPayment_req_def SavedCardPayment_req_def Let_def
        CommonPaymentRequest.truncate_def)

lemma RecurringPayment_req_SavedCard:
  "RecurringPayment_req s req = SavedCardPayment_req s (req\<lparr>saved_RecurringPayment := ''1''\<rparr>)"
  by (simp add: RecurringPayment_req_def SavedCardPayment_req_def Let_def)

text \<open>
  Claim C5.  \<^verbatim>\<open>RecurringPayment\<close> sets the recurring flag of its copy of the request to
  1 and then does what \<^verbatim>\<open>SavedCardPayment\<close> does: the request it sends is the one that
  \<^verbatim>\<open>SavedCardPayment\<close> sends for the same input but for the flag, with the same token,
  to the same address, and the whole call is \<^verbatim>\<open>SavedCardPayment\<close> on the request with
  the flag set.
\<close>

theorem recurring_payment_as_saved_card:
  "RecurringPayment_req s req = (SavedCardPayment_req s req)\<lparr>saved_RecurringPayment := ''1''\<rparr> \<and>
   saved_RecurringPayment (RecurringPayment_req s req) = ''1'' \<and>
   PayTRToken (RecurringPayment_req s req) = PayTRToken (SavedCardPayment_req s req) \<and>
   PayTRToken (RecurringPayment_req s req) =
     generateToken s (CommonPaymentRequest.truncate req) \<and>
   RecurringPayment L s req =
     sendRequest L s (SavedCardPayload ((SavedCardPayment_req s req)\<lparr>saved_RecurringPayment := ''1''\<rparr>))
       (PayTRBaseURL @ ''/odeme'') \<and>
   SavedCardPayment L s req =
     sendRequest L s (SavedCardPayload (SavedCardPayment_req s req)) (PayTRBaseURL @ ''/odeme'') \<and>
   RecurringPayment L s req = SavedCardPayment L s (req\<lparr>saved_RecurringPayment := ''1''\<rparr>)"
proof -
  have "PayTRToken (RecurringPayment_req s req) = PayTRToken (SavedCardPayment_req s req)"
    by (simp add: RecurringPayment_req_def SavedCardPayment_req_def Let_def
        truncate_RecurringPayment_update)
  moreover have "PayTRToken (SavedCardPayment_req s req) =
      generateToken s (CommonPaymentRequest.truncate req)"
    by (simp add: SavedCardPayment_req_def)
  moreover have "saved_RecurringPayment (RecurringPayment_req s req) = ''1''"
    by (simp add: RecurringPayment_req_def Let_def)
  moreover have "RecurringPayment L s req =
      sendRequest L s
        (SavedCardPayload ((SavedCardPayment_req s req)\<lparr>saved_RecurringPayment := ''1''\<rparr>))
        (PayTRBaseURL @ ''/odeme'')"
    by (simp only: RecurringPayment_def RecurringPayment_req_eq)
  moreover have "RecurringPayment L s req =
      SavedCardPayment L s (req\<lparr>saved_RecurringPayment := ''1''\<rparr>)"
    by (simp only: RecurringPayment_def SavedCardPayment_def RecurringPayment_req_SavedCard)
  ultimately show ?thesis
    by (simp add: RecurringPayment_req_eq SavedCardPayment_def)
qed

text \<open>
  Claim C6, as amended.  The request that \<^verbatim>\<open>AddNewCard\<close> builds charges the amount 1,
  which the token input prints as 1.00, has the test mode 1, the basket of the one item
  Card Validation and the store-card flag 1; it takes the user IP, the order ID, the
  email, the two callback URLs, the address, the phone and the six card fields from the
  caller unchanged; its token is the token of the primary scheme over the request so
  built; and it is sent as \<^verbatim>\<open>NewCardPayment\<close> sends that request.
\<close>

theorem add_new_card_request:
  "PaymentAmount (AddNewCard_req s req) = float64_one \<and>
   FormatFloat_f2 float64_one = ''1.00'' \<and>
   TestMode (AddNewCard_req s req) = ''1'' \<and>
   UserBasket (AddNewCard_req s req) = ''[[\"Card Validation\", \"1\", 1]]'' \<and>
   StoreCard (AddNewCard_req s req) = ''1'' \<and>
   UserIP (AddNewCard_req s req) = add_UserIP req \<and>
   MerchantOid (AddNewCard_req s req) = add_MerchantOid req \<and>
   Email (AddNewCard_req s req) = add_Email req \<and>
   MerchantOkURL (AddNewCard_req s req) = add_MerchantOkURL req \<and>
   MerchantFailURL (AddNewCard_req s req) = add_MerchantFailURL req \<and>
   UserAddress (AddNewCard_req s req) = add_UserAddress req \<and>
   UserPhone (AddNewCard_req s req) = add_UserPhone req \<and>
   CardOwner (AddNewCard_req s req) = add_CardOwner req \<and>
   CardNumber (AddNewCard_req s req) = add_CardNumber req \<and>
   ExpiryMonth (AddNewCard_req s req) = add_ExpiryMonth req \<and>
   ExpiryYear (AddNewCard_req s req) = add_ExpiryYear req \<and>
   CVV (AddNewCard_req s req) = add_CVV req \<and>
   CardType (AddNewCard_req s req) = add_CardType req \<and>
   PayTRToken (AddNewCard_req s req) =
     primary_scheme_token (config s) (CommonPaymentRequest.truncate (AddNewCard_paytrReq s req)) \<and>
   AddNewCard_req s req = NewCardPayment_req s (AddNewCard_paytrReq s req) \<and>
   AddNewCard L s req = NewCardPayment L s (AddNewCard_paytrReq s req) \<and>
   AddNewCard L s req =
     sendRequest L s (NewCardPayload (AddNewCard_req s req)) (PayTRBaseURL @ ''/odeme'')"
proof -
  have one: "FormatFloat_f2 float64_one = ''1.00''"
    by (simp add: float64_one_def FormatFloat_eval)
  have req: "AddNewCard_req s req = NewCardPayment_req s (AddNewCard_paytrReq s req)"
    by (simp add: AddNewCard_req_def NewCardPayment_req_def Let_def)
  have tok: "PayTRToken (AddNewCard_req s req) =
      primary_scheme_token (config s) (CommonPaymentRequest.truncate (AddNewCard_paytrReq s req))"
    by (simp add: req NewCardPayment_req_def generateToken_eq_primary)
  have call: "AddNewCard L s req = NewCardPayment L s (AddNewCard_paytrReq s req)"
    by (simp only: AddNewCard_def NewCardPayment_def req)
  have fields: "PaymentAmount (AddNewCard_req s req) = float64_one \<and>
      TestMode (AddNewCard_req s req) = ''1'' \<and>
      UserBasket (AddNewCard_req s req) = ''[[\"Card Validation\", \"1\", 1]]'' \<and>
      StoreCard (AddNewCard_req s req) = ''1'' \<and>
      UserIP (AddNewCard_req s req) = add_UserIP req \<and>
      MerchantOid (AddNewCard_req s req) = add_MerchantOid req \<and>
      Email (AddNewCard_req s req) = add_Email req \<and>
      MerchantOkURL (AddNewCard_req s req) = add_MerchantOkURL req \<and>
      MerchantFailURL (AddNewCard_req s req) = add_MerchantFailURL req \<and>
      UserAddress (AddNewCard_req s req) = add_UserAddress req \<and>
      UserPhone (AddNewCard_req s req) = add_UserPhone req \<and>
      CardOwner (AddNewCard_req s req) = add_CardOwner req \<and>
      CardNumber (AddNewCard_req s req) = add_CardNumber req \<and>
      ExpiryMonth (AddNewCard_req s req) = add_ExpiryMonth req \<and>
      ExpiryYear (AddNewCard_req s req) = add_ExpiryYear req \<and>
      CVV (AddNewCard_req s req) = add_CVV req \<and>
      CardType (AddNewCard_req s req) = add_CardType req"
    by (simp add: AddNewCard_req_def AddNewCard_paytrReq_def Let_def)
  from one req tok call fields show ?thesis
    by (simp only: AddNewCard_def simp_thms)
qed

text \<open>
  Claim C6 as stated fails for the name of the user, which is a field of the caller's
  identity: the request built carries the name of the card owner in its place.
\<close>

theorem add_new_card_user_name_counterexample:
  "add_UserName add_card_example = ''Alice'' \<and>
   UserName (AddNewCard_req (mock_service []) add_card_example) = ''Bob'' \<and>
   map_of (json_members (NewCardPayload (AddNewCard_req (mock_service []) add_card_example)))
     ''user_name'' = Some (JSONString ''Bob'')"
  by (simp add: add_card_example_def AddNewCard_req_def AddNewCard_paytrReq_def Let_def
      common_members_def json_string_examples)

section \<open>What the token depends on\<close>

lemma generateToken_hashStr_signed_fields:
  "generateToken_hashStr s req = config_MerchantID (config s) @ concat (signed_fields req)"
  by (simp add: generateToken_hashStr_def signed_fields_def)

lemma generateToken_cong:
  assumes "signed_fields r1 = signed_fields r2"
  shows "generateToken s r1 = generateToken s r2"
  using assms by (simp add: generateToken_def generateToken_hashStr_signed_fields)

text \<open>
  Claim C10, as amended.  Two requests with the same user IP, order ID, email, amount,
  payment type, installment count, currency, test-mode flag and non-3D flag get the same
  token from the same service; the merchant ID and the token that the caller has put
  into the request change nothing in it, for \<^verbatim>\<open>generateToken\<close> and for the request
  that \<^verbatim>\<open>NewCardPayment\<close> and \<^verbatim>\<open>SavedCardPayment\<close> send.  The member
  \<^verbatim>\<open>merchant_id\<close> of the JSON object is the merchant ID of the caller as the document
  holds it, which is the merchant ID of the caller where that is valid UTF-8, and there
  are a service and a request for which it is not the configured merchant ID, the one
  that was signed.
\<close>

theorem token_independent_of_request_merchant:
  "(UserIP r1 = UserIP r2 \<and> MerchantOid r1 = MerchantOid r2 \<and> Email r1 = Email r2 \<and>
    PaymentAmount r1 = PaymentAmount r2 \<and> PaymentType r1 = PaymentType r2 \<and>
    InstallmentCount r1 = InstallmentCount r2 \<and> Currency r1 = Currency r2 \<and>
    TestMode r1 = TestMode r2 \<and> NonThreeD r1 = NonThreeD r2 \<longrightarrow>
    generateToken s r1 = generateToken s r2) \<and>
   generateToken s (r\<lparr>MerchantID := m, PayTRToken := t\<rparr>) = generateToken s r \<and>
   PayTRToken (NewCardPayment_req s (newReq\<lparr>MerchantID := m, PayTRToken := t\<rparr>)) =
     PayTRToken (NewCardPayment_req s newReq) \<and>
   PayTRToken (SavedCardPayment_req s (savedReq\<lparr>MerchantID := m, PayTRToken := t\<rparr>)) =
     PayTRToken (SavedCardPayment_req s savedReq) \<and>
   map_of (json_members (NewCardPayload (NewCardPayment_req s newReq))) ''merchant_id'' =
     Some (JSONString (json_string (MerchantID newReq))) \<and>
   map_of (json_members (SavedCardPayload (SavedCardPayment_req s savedReq))) ''merchant_id'' =
     Some (JSONString (json_string (MerchantID savedReq))) \<and>
   (utf8_ValidString (MerchantID newReq) \<longrightarrow>
    map_of (json_members (NewCardPayload (NewCardPayment_req s newReq))) ''merchant_id'' =
      Some (JSONString (MerchantID newReq))) \<and>
   (utf8_ValidString (MerchantID savedReq) \<longrightarrow>
    map_of (json_members (SavedCardPayload (SavedCardPayment_req s savedReq))) ''merchant_id'' =
      Some (JSONString (MerchantID savedReq))) \<and>
   (\<exists>s' q. map_of (json_members (NewCardPayload (NewCardPayment_req s' q))) ''merchant_id'' \<noteq>
      Some (JSONString (config_MerchantID (config s'))))"
proof -
  have a: "UserIP r1 = UserIP r2 \<and> MerchantOid r1 = MerchantOid r2 \<and> Email r1 = Email r2 \<and>
      PaymentAmount r1 = PaymentAmount r2 \<and> PaymentType r1 = PaymentType r2 \<and>
      InstallmentCount r1 = InstallmentCount r2 \<and> Currency r1 = Currency r2 \<and>
      TestMode r1 = TestMode r2 \<and> NonThreeD r1 = NonThreeD r2 \<longrightarrow>
      generateToken s r1 = generateToken s r2"
    by (intro impI, rule generateToken_cong, simp add: signed_fields_def)
  have b: "generateToken s (r\<lparr>MerchantID := m, PayTRToken := t\<rparr>) = generateToken s r"
    by (rule generateToken_cong) (simp add: signed_fields_def)
  have c: "PayTRToken (NewCardPayment_req s (newReq\<lparr>MerchantID := m, PayTRToken := t\<rparr>)) =
      PayTRToken (NewCardPayment_req s newReq)"
    by (simp add: NewCardPayment_req_def)
       (rule generateToken_cong, simp add: signed_fields_def CommonPaymentRequest.truncate_def)
  have d: "PayTRToken (SavedCardPayment_req s (savedReq\<lparr>MerchantID := m, PayTRToken := t\<rparr>)) =
      PayTRToken (SavedCardPayment_req s savedReq)"
    by (simp add: SavedCardPayment_req_def)
       (rule generateToken_cong, simp add: signed_fields_def CommonPaymentRequest.truncate_def)
  have e: "map_of (json_members (NewCardPayload (NewCardPayment_req s newReq))) ''merchant_id'' =
      Some (JSONString (json_string (MerchantID newReq)))"
    by (simp add: merchant_id_member NewCardPayment_req_def del: json_members.simps)
  have f: "map_of (json_members (SavedCardPayload (SavedCardPayment_req s savedReq)))
      ''merchant_id'' = Some (JSONString (json_string (MerchantID savedReq)))"
    by (simp add: merchant_id_member SavedCardPayment_req_def del: json_members.simps)
  have e': "utf8_ValidString (MerchantID newReq) \<longrightarrow>
      map_of (json_members (NewCardPayload (NewCardPayment_req s newReq))) ''merchant_id'' =
        Some (JSONString (MerchantID newReq))"
    using e by (simp add: json_string_valid del: json_members.simps)
  have f': "utf8_ValidString (MerchantID savedReq) \<longrightarrow>
      map_of (json_members (SavedCardPayload (SavedCardPayment_req s savedReq))) ''merchant_id'' =
        Some (JSONString (MerchantID savedReq))"
    using f by (simp add: json_string_valid del: json_members.simps)
  have "map_of (json_members
          (NewCardPayload (NewCardPayment_req (mock_service []) foreign_new_card))) ''merchant_id'' \<noteq>
        Some (JSONString (config_MerchantID (config (mock_service []))))"
    by (simp add: merchant_id_member NewCardPayment_req_def foreign_new_card_def
        foreign_common_def CommonPaymentRequest.extend_def mock_service_def test_config_def
        json_string_examples del: json_members.simps)
  then have g: "\<exists>s' q. map_of (json_members (NewCardPayload (NewCardPayment_req s' q)))
      ''merchant_id'' \<noteq> Some (JSONString (config_MerchantID (config s')))"
    by blast
  from a b c d e f e' f' g show ?thesis by (simp only: simp_thms)
qed

theorem token_independent_of_request_merchant_witness:
  "UserIP foreign_common = UserIP test_common \<and>
   MerchantOid foreign_common = MerchantOid test_common \<and>
   Email foreign_common = Email test_common \<and>
   PaymentAmount foreign_common = PaymentAmount test_common \<and>
   PaymentType foreign_common = PaymentType test_common \<and>
   InstallmentCount foreign_common = InstallmentCount test_common \<and>
   Currency foreign_common = Currency test_common \<and>
   TestMode foreign_common = TestMode test_common \<and>
   NonThreeD foreign_common = NonThreeD test_common \<and>
   MerchantID foreign_common \<noteq> MerchantID test_common \<and>
   PayTRToken foreign_common \<noteq> PayTRToken test_common \<and>
   generateToken (mock_service []) foreign_common = generateToken (mock_service []) test_common \<and>
   utf8_ValidString (MerchantID foreign_new_card) \<and>
   map_of (json_members (NewCardPayload (NewCardPayment_req (mock_service []) foreign_new_card)))
     ''merchant_id'' = Some (JSONString ''other_merchant'')"
proof -
  have h: "UserIP foreign_common = UserIP test_common \<and>
      MerchantOid foreign_common = MerchantOid test_common \<and>
      Email foreign_common = Email test_common \<and>
      PaymentAmount foreign_common = PaymentAmount test_common \<and>
      PaymentType foreign_common = PaymentType test_common \<and>
      InstallmentCount foreign_common = InstallmentCount test_common \<and>
      Currency foreign_common = Currency test_common \<and>
      TestMode foreign_common = TestMode test_common \<and>
      NonThreeD foreign_common = NonThreeD test_common"
    by (simp add: foreign_common_def)
  have n: "MerchantID foreign_common \<noteq> MerchantID test_common \<and>
      PayTRToken foreign_common \<noteq> PayTRToken test_common"
    by (simp add: foreign_common_def test_common_def)
  have mid: "MerchantID foreign_new_card = ''other_merchant''"
    by (simp add: foreign_new_card_def foreign_common_def CommonPaymentRequest.extend_def)
  then have v: "utf8_ValidString (MerchantID foreign_new_card)"
    by (simp add: json_string_examples)
  note t = token_independent_of_request_merchant
    [of foreign_common test_common "mock_service []" _ _ _ foreign_new_card]
  from t h
  have g: "generateToken (mock_service []) foreign_common =
      generateToken (mock_service []) test_common"
    by blast
  from t v
  have "map_of (json_members
          (NewCardPayload (NewCardPayment_req (mock_service []) foreign_new_card)))
          ''merchant_id'' = Some (JSONString (MerchantID foreign_new_card))"
    by blast
  with mid have j: "map_of (json_members
      (NewCardPayload (NewCardPayment_req (mock_service []) foreign_new_card)))
      ''merchant_id'' = Some (JSONString ''other_merchant'')"
    by simp
  from h n g v j show ?thesis by blast
qed

text \<open>
  Claim C10 as stated fails for the serialized merchant ID at a merchant ID of the
  caller that is not valid UTF-8: the document holds U+FFFD in the place of the byte FF,
  and not the string of the caller.
\<close>

theorem serialized_merchant_id_counterexample:
  "MerchantID invalid_merchant_new_card = ''other'' @ [CHR 0xFF] \<and>
   map_of (json_members
             (NewCardPayload (NewCardPayment_req (mock_service []) invalid_merchant_new_card)))
     ''merchant_id'' = Some (JSONString (''other'' @ [CHR 0xEF, CHR 0xBF, CHR 0xBD])) \<and>
   map_of (json_members
             (NewCardPayload (NewCardPayment_req (mock_service []) invalid_merchant_new_card)))
     ''merchant_id'' \<noteq> Some (JSONString (MerchantID invalid_merchant_new_card))"
proof -
  have mid: "MerchantID invalid_merchant_new_card = ''other'' @ [CHR 0xFF]"
    by (simp add: invalid_merchant_new_card_def)
  have "map_of (json_members
          (NewCardPayload (NewCardPayment_req (mock_service []) invalid_merchant_new_card)))
          ''merchant_id'' = Some (JSONString (json_string (''other'' @ [CHR 0xFF])))"
    by (simp add: merchant_id_member NewCardPayment_req_def invalid_merchant_new_card_def
        del: json_members.simps)
  then have m: "map_of (json_members
      (NewCardPayload (NewCardPayment_req (mock_service []) invalid_merchant_new_card)))
      ''merchant_id'' = Some (JSONString (''other'' @ [CHR 0xEF, CHR 0xBF, CHR 0xBD]))"
    by (simp only: json_string_examples replacement_char_def)
  from mid m show ?thesis by simp
qed

lemma inj_bytes_of_string: "inj bytes_of_string"
proof -
  have "inj (of_char :: char \<Rightarrow> byte)"
  proof (rule injI)
    fix c d :: char
    assume "(of_char c :: byte) = of_char d"
    then have "unat (of_char c :: byte) = unat (of_char d :: byte)" by simp
    moreover have "unat (of_char x :: byte) = of_char x" for x
    proof -
      have "unat (word_of_nat (of_char x) :: byte) = of_char x mod 2 ^ LENGTH(8)"
        by (rule unat_of_nat)
      then show ?thesis by (simp add: of_nat_of_char)
    qed
    ultimately have "(of_char c :: nat) = of_char d"
      by simp
    then show "c = d" by simp
  qed
  then show ?thesis
    unfolding bytes_of_string_def by (simp add: inj_mapI) 
qed

lemma concat_update_differs:
  assumes "i < length xs" and "v \<noteq> xs ! i"
  shows "concat (xs[i := v]) \<noteq> concat xs"
proof -
  have "xs = take i xs @ xs ! i # drop (Suc i) xs"
    using assms(1) by (rule id_take_nth_drop)
  then have a: "concat xs = concat (take i xs) @ xs ! i @ concat (drop (Suc i) xs)"
    by (metis concat.simps(2) concat_append)
  have "xs[i := v] = take i xs @ v # drop (Suc i) xs"
    using assms(1) by (rule upd_conv_take_nth_drop)
  then have b: "concat (xs[i := v]) = concat (take i xs) @ v @ concat (drop (Suc i) xs)"
    by simp
  from assms(2) show ?thesis
    unfolding a b by simp
qed

text \<open>
  Claim C4, as amended.  When the signed fields of two requests, as the strings that
  enter the hash input, agree except at exactly one position, then the two strings that
  are handed to HMAC-SHA256 differ, as strings and as the bytes that are hashed.
\<close>

theorem single_signed_field_change:
  assumes "i < length (signed_fields r1)"
    and "signed_fields r2 = (signed_fields r1)[i := v]"
    and "v \<noteq> signed_fields r1 ! i"
  shows "generateToken_hashStr s r2 @ config_MerchantSalt (config s) \<noteq>
         generateToken_hashStr s r1 @ config_MerchantSalt (config s) \<and>
         bytes_of_string (generateToken_hashStr s r2 @ config_MerchantSalt (config s)) \<noteq>
         bytes_of_string (generateToken_hashStr s r1 @ config_MerchantSalt (config s))"
proof -
  have "generateToken_hashStr s r2 @ config_MerchantSalt (config s) \<noteq>
      generateToken_hashStr s r1 @ config_MerchantSalt (config s)"
    using concat_update_differs [OF assms(1) assms(3)] assms(2)
    by (simp add: generateToken_hashStr_signed_fields)
  then show ?thesis
    using inj_bytes_of_string by (simp add: inj_eq)
qed

theorem single_signed_field_change_witness:
  "(1::nat) < length (signed_fields test_common) \<and>
   signed_fields (test_common\<lparr>MerchantOid := ''test_order_124''\<rparr>) =
     (signed_fields test_common)[1 := ''test_order_124''] \<and>
   ''test_order_124'' \<noteq> signed_fields test_common ! 1 \<and>
   generateToken_hashStr (mock_service []) (test_common\<lparr>MerchantOid := ''test_order_124''\<rparr>) @
     config_MerchantSalt (config (mock_service [])) \<noteq>
   generateToken_hashStr (mock_service []) test_common @
     config_MerchantSalt (config (mock_service []))"
proof -
  have a: "(1::nat) < length (signed_fields test_common)"
    by (simp add: signed_fields_def)
  have b: "signed_fields (test_common\<lparr>MerchantOid := ''test_order_124''\<rparr>) =
      (signed_fields test_common)[1 := ''test_order_124'']"
    by (simp add: signed_fields_def)
  have c: "''test_order_124'' \<noteq> signed_fields test_common ! 1"
    by (simp add: signed_fields_def test_common_def)
  from single_signed_field_change [OF a b c, of "mock_service []"] a b c
  show ?thesis by blast
qed

text \<open>
  Claim C4 as stated fails twice.  The user IP ab with the order ID c and the user IP a
  with the order ID bc give the same hash input and so the same token.  And two requests
  that differ in the amount alone, 100.001 against 100.002, give the same token, since
  both amounts are printed as 100.00.
\<close>

theorem token_collision_counterexample:
  "boundary_request ''ab'' ''c'' \<noteq> boundary_request ''a'' ''bc'' \<and>
   generateToken_hashStr (mock_service []) (boundary_request ''ab'' ''c'') =
     generateToken_hashStr (mock_service []) (boundary_request ''a'' ''bc'') \<and>
   generateToken (mock_service []) (boundary_request ''ab'' ''c'') =
     generateToken (mock_service []) (boundary_request ''a'' ''bc'') \<and>
   float64_100_001 \<noteq> float64_100_002 \<and>
   generateToken (mock_service []) (test_common\<lparr>PaymentAmount := float64_100_001\<rparr>) =
     generateToken (mock_service []) (test_common\<lparr>PaymentAmount := float64_100_002\<rparr>)"
proof -
  have a: "boundary_request ''ab'' ''c'' \<noteq> boundary_request ''a'' ''bc''"
    by (simp add: boundary_request_def test_common_def)
  have b: "generateToken_hashStr (mock_service []) (boundary_request ''ab'' ''c'') =
      generateToken_hashStr (mock_service []) (boundary_request ''a'' ''bc'')"
    by (simp add: generateToken_hashStr_def boundary_request_def)
  have c: "generateToken (mock_service []) (boundary_request ''ab'' ''c'') =
      generateToken (mock_service []) (boundary_request ''a'' ''bc'')"
    by (simp add: generateToken_def b)
  have d: "float64_100_001 \<noteq> float64_100_002"
    by (simp add: float64_100_001_def float64_100_002_def)
  have "FormatFloat_f2 float64_100_001 = ''100.00''"
    by (simp add: float64_100_001_def FormatFloat_eval)
  moreover have "FormatFloat_f2 float64_100_002 = ''100.00''"
    by (simp add: float64_100_002_def FormatFloat_eval)
  ultimately have e:
    "generateToken (mock_service []) (test_common\<lparr>PaymentAmount := float64_100_001\<rparr>) =
     generateToken (mock_service []) (test_common\<lparr>PaymentAmount := float64_100_002\<rparr>)"
    by (simp add: generateToken_def generateToken_hashStr_def)
  from a b c d e show ?thesis by blast
qed

lemma length_sha256_round: "length (sha256_round st kw) = length st"
  by (induction st kw rule: sha256_round.induct) (simp_all add: Let_def)

lemma length_foldl_sha256_round: "length (foldl sha256_round st kws) = length st"
  by (induction kws arbitrary: st) (simp_all add: length_sha256_round)

lemma length_sha256_block: "length (sha256_block hs p) = length hs"
  by (simp add: sha256_block_def length_foldl_sha256_round)

lemma length_foldl_sha256_block: "length (foldl sha256_block hs ps) = length hs"
  by (induction ps arbitrary: hs) (simp_all add: length_sha256_block)

lemma length_concat_be_bytes: "length (concat (map be_bytes ws)) = 4 * length ws"
  by (induction ws) (simp_all add: be_bytes_def)

lemma length_sha256: "length (sha256 m) = 32"
  by (simp add: sha256_def Let_def length_concat_be_bytes length_foldl_sha256_block
      sha256_init_def)

lemma length_hmac_sha256: "length (hmac_sha256 key msg) = 32"
  by (simp add: hmac_sha256_def Let_def length_sha256)

lemma length_base64: "length (base64_EncodeToString bs) = 4 * ((length bs + 2) div 3)"
proof (induction bs rule: base64_EncodeToString.induct)
  case (1 a b c rest)
  have "(length rest + 5) div 3 = Suc ((length rest + 2) div 3)" by presburger
  with 1 show ?case by (simp add: add.commute)
qed simp_all

lemma length_generateToken: "length (generateToken s req) = 44"
  by (simp add: generateToken_def Let_def length_base64 length_hmac_sha256)

text \<open>
  A token has 44 characters, so there are finitely many tokens and infinitely many order
  IDs: whatever the service and the other fields, two order IDs get the same token.
  That two requests get different tokens can therefore not be shown for all requests
  that differ in one field; what can be shown is that their hash inputs differ.
\<close>

lemma generateToken_not_injective:
  "\<exists>oid1 oid2. oid1 \<noteq> oid2 \<and>
     generateToken s (req\<lparr>MerchantOid := oid1\<rparr>) = generateToken s (req\<lparr>MerchantOid := oid2\<rparr>)"
proof -
  let ?f = "\<lambda>oid. generateToken s (req\<lparr>MerchantOid := oid\<rparr>)"
  have "range ?f \<subseteq> {xs. set xs \<subseteq> UNIV \<and> length xs = 44}"
    by (auto simp: length_generateToken)
  moreover have "finite {xs :: string. set xs \<subseteq> UNIV \<and> length xs = 44}"
    by (rule finite_lists_length_eq) simp
  ultimately have "finite (range ?f)"
    by (rule finite_subset)
  moreover have "infinite (UNIV :: string set)"
    by (rule infinite_UNIV_listI)
  ultimately have "\<not> inj ?f"
    using finite_imageD by blast
  then show ?thesis
    by (auto simp: inj_on_def)
qed

section \<open>The stages of \<^verbatim>\<open>sendRequest\<close>\<close>

lemma sendRequest_events:
  "snd (sendRequest L s req url) = [] \<or> (\<exists>r. snd (sendRequest L s req url) = [Do r])"
  by (simp add: sendRequest_def Let_def split: sum.splits)

lemma sendRequest_no_Decode: "Decode d \<notin> set (snd (sendRequest L s req url))"
  using sendRequest_events [of L s req url] by auto

text \<open>
  Claim C8.  \<^verbatim>\<open>sendRequest\<close> returns the error \<open>e\<close> exactly when one of its five stages
  fails with \<open>e\<close> after the stages before it have succeeded: the serialization of the
  payload, the construction of the request, the call of the client, the reading of the
  body, the deserialization of the body.  It returns an envelope exactly when all five
  succeed, and then the envelope that the deserialization gave.  The client is called
  at most once: not at all when one of the first two stages fails, and else once, with
  the request constructed.
\<close>

theorem sendRequest_stages:
  "(fst (sendRequest L s req url) = Inl e \<longleftrightarrow>
      json_Marshal req = Inl e \<or>
      (\<exists>jsonData. json_Marshal req = Inr jsonData \<and>
         http_NewRequest L ''POST'' url jsonData = Inl e) \<or>
      (\<exists>jsonData httpReq. json_Marshal req = Inr jsonData \<and>
         http_NewRequest L ''POST'' url jsonData = Inr httpReq \<and>
         client s (httpReq\<lparr>Header := [(''Content-Type'', ''application/json'')]\<rparr>) = Inl e) \<or>
      (\<exists>jsonData httpReq resp. json_Marshal req = Inr jsonData \<and>
         http_NewRequest L ''POST'' url jsonData = Inr httpReq \<and>
         client s (httpReq\<lparr>Header := [(''Content-Type'', ''application/json'')]\<rparr>) = Inr resp \<and>
         ReadAll resp = Inl e) \<or>
      (\<exists>jsonData httpReq resp body. json_Marshal req = Inr jsonData \<and>
         http_NewRequest L ''POST'' url jsonData = Inr httpReq \<and>
         client s (httpReq\<lparr>Header := [(''Content-Type'', ''application/json'')]\<rparr>) = Inr resp \<and>
         ReadAll resp = Inr body \<and> json_Unmarshal L body = Inl e)) \<and>
   (fst (sendRequest L s req url) = Inr result \<longleftrightarrow>
      (\<exists>jsonData httpReq resp body. json_Marshal req = Inr jsonData \<and>
         http_NewRequest L ''POST'' url jsonData = Inr httpReq \<and>
         client s (httpReq\<lparr>Header := [(''Content-Type'', ''application/json'')]\<rparr>) = Inr resp \<and>
         ReadAll resp = Inr body \<and> json_Unmarshal L body = Inr result)) \<and>
   (snd (sendRequest L s req url) = [] \<longleftrightarrow>
      (\<exists>err. json_Marshal req = Inl err) \<or>
      (\<exists>jsonData err. json_Marshal req = Inr jsonData \<and>
         http_NewRequest L ''POST'' url jsonData = Inl err)) \<and>
   (snd (sendRequest L s req url) = [] \<or>
      (\<exists>jsonData httpReq. json_Marshal req = Inr jsonData \<and>
         http_NewRequest L ''POST'' url jsonData = Inr httpReq \<and>
         snd (sendRequest L s req url) =
           [Do (httpReq\<lparr>Header := [(''Content-Type'', ''application/json'')]\<rparr>)])) \<and>
   length (snd (sendRequest L s req url)) \<le> 1"
proof -
  have a: "fst (sendRequest L s req url) = Inl e \<longleftrightarrow>
      json_Marshal req = Inl e \<or>
      (\<exists>jsonData. json_Marshal req = Inr jsonData \<and>
         http_NewRequest L ''POST'' url jsonData = Inl e) \<or>
      (\<exists>jsonData httpReq. json_Marshal req = Inr jsonData \<and>
         http_NewRequest L ''POST'' url jsonData = Inr httpReq \<and>
         client s (httpReq\<lparr>Header := [(''Content-Type'', ''application/json'')]\<rparr>) = Inl e) \<or>
      (\<exists>jsonData httpReq resp. json_Marshal req = Inr jsonData \<and>
         http_NewRequest L ''POST'' url jsonData = Inr httpReq \<and>
         client s (httpReq\<lparr>Header := [(''Content-Type'', ''application/json'')]\<rparr>) = Inr resp \<and>
         ReadAll resp = Inl e) \<or>
      (\<exists>jsonData httpReq resp body. json_Marshal req = Inr jsonData \<and>
         http_NewRequest L ''POST'' url jsonData = Inr httpReq \<and>
         client s (httpReq\<lparr>Header := [(''Content-Type'', ''application/json'')]\<rparr>) = Inr resp \<and>
         ReadAll resp = Inr body \<and> json_Unmarshal L body = Inl e)"
    by (auto simp: sendRequest_def Let_def split: sum.splits)
  have b: "fst (sendRequest L s req url) = Inr result \<longleftrightarrow>
      (\<exists>jsonData httpReq resp body. json_Marshal req = Inr jsonData \<and>
         http_NewRequest L ''POST'' url jsonData = Inr httpReq \<and>
         client s (httpReq\<lparr>Header := [(''Content-Type'', ''application/json'')]\<rparr>) = Inr resp \<and>
         ReadAll resp = Inr body \<and> json_Unmarshal L body = Inr result)"
    by (auto simp: sendRequest_def Let_def split: sum.splits)
  have c: "snd (sendRequest L s req url) = [] \<longleftrightarrow>
      (\<exists>err. json_Marshal req = Inl err) \<or>
      (\<exists>jsonData err. json_Marshal req = Inr jsonData \<and>
         http_NewRequest L ''POST'' url jsonData = Inl err)"
    by (auto simp: sendRequest_def Let_def split: sum.splits)
  have d: "snd (sendRequest L s req url) = [] \<or>
      (\<exists>jsonData httpReq. json_Marshal req = Inr jsonData \<and>
         http_NewRequest L ''POST'' url jsonData = Inr httpReq \<and>
         snd (sendRequest L s req url) =
           [Do (httpReq\<lparr>Header := [(''Content-Type'', ''application/json'')]\<rparr>)])"
    by (auto simp: sendRequest_def Let_def split: sum.splits)
  have e: "length (snd (sendRequest L s req url)) \<le> 1"
    using sendRequest_events [of L s req url] by auto
  from a b c d e show ?thesis by (simp only: simp_thms)
qed

section \<open>A transport that always answers with the same success envelope\<close>

lemma json_Marshal_supported:
  assumes "\<not> list_ex unsupported_value (json_members p)"
  shows "json_Marshal p = Inr (json_members p)"
proof -
  from assms have "find unsupported_value (json_members p) = None"
    by (simp add: find_None_iff list_ex_iff)
  then show ?thesis by (simp add: json_Marshal_def)
qed

lemma sendRequest_echo:
  assumes "\<forall>r. \<exists>resp body. client s r = Inr resp \<and> ReadAll resp = Inr body \<and>
             json_Unmarshal L body = Inr envelope"
    and "NewRequest_error L ''POST'' url = None"
    and "\<not> list_ex unsupported_value (json_members p)"
  shows "fst (sendRequest L s p url) = Inr envelope"
proof -
  let ?r = "\<lparr>Method = ''POST'', URL = url,
             Header = [(''Content-Type'', ''application/json'')], Body = json_members p\<rparr>"
  from assms(1) obtain resp body where
    "client s ?r = Inr resp" "ReadAll resp = Inr body" "json_Unmarshal L body = Inr envelope"
    by blast
  with assms(2) json_Marshal_supported [OF assms(3)] show ?thesis
    by (simp add: sendRequest_def http_NewRequest_def)
qed

lemma endpoint_accepted:
  assumes "\<forall>p\<in>set endpoints. NewRequest_error L ''POST'' (PayTRBaseURL @ p) = None"
  shows "NewRequest_error L ''POST'' (PayTRBaseURL @ ''/odeme'') = None"
    and "NewRequest_error L ''POST'' (PayTRBaseURL @ ''/odeme/iade'') = None"
    and "NewRequest_error L ''POST'' (PayTRBaseURL @ ''/odeme/durum-sorgu'') = None"
    and "NewRequest_error L ''POST'' (PayTRBaseURL @ ''/rapor/islem-dokumu'') = None"
    and "NewRequest_error L ''POST'' (PayTRBaseURL @ ''/odeme/api/bin-detail'') = None"
    and "NewRequest_error L ''POST'' (PayTRBaseURL @ ''/odeme/capi/list'') = None"
    and "NewRequest_error L ''POST'' (PayTRBaseURL @ ''/odeme/capi/delete'') = None"
  using assms by (simp_all add: endpoints_def)

lemma unsupported_NewCardPayload:
  "list_ex unsupported_value (json_members (NewCardPayload r)) \<longleftrightarrow>
     float64_exp (PaymentAmount r) = 2047"
  by (simp add: common_members_def)

lemma unsupported_SavedCardPayload:
  "list_ex unsupported_value (json_members (SavedCardPayload r)) \<longleftrightarrow>
     float64_exp (PaymentAmount r) = 2047"
  by (simp add: common_members_def)

lemma float64_one_finite: "float64_exp float64_one \<noteq> 2047"
  by (simp add: float64_one_def float64_exp_def)

lemma decoded_inquiry_Status:
  "decode_StatusInquiryResponse m = Inr result \<Longrightarrow> inquiry_Status result = string_field m ''Status''"
  by (auto simp: decode_StatusInquiryResponse_def Let_def split: if_splits)

lemma decoded_details_Status:
  "decode_TransactionDetailsResponse m = Inr result \<Longrightarrow>
     details_Status result = string_field m ''Status''"
  by (auto simp: decode_TransactionDetailsResponse_def Let_def split: if_splits)

lemma mock_echo:
  "\<forall>r. \<exists>resp b. client (mock_service body) r = Inr resp \<and> ReadAll resp = Inr b \<and>
     json_Unmarshal (mock_stdlib body envelope) b = Inr envelope"
  by (simp add: mock_service_def mock_stdlib_def)

lemma mock_accepts: "NewRequest_error (mock_stdlib body envelope) method url = None"
  by (simp add: mock_stdlib_def)

lemma sendRequest_mock:
  assumes "\<not> list_ex unsupported_value (json_members p)"
  shows "fst (sendRequest (mock_stdlib body envelope) (mock_service body) p url) = Inr envelope"
  using mock_echo mock_accepts assms by (rule sendRequest_echo)

lemma sendRequest_mock_inquiry:
  "fst (sendRequest (mock_stdlib body envelope) (mock_service body)
         (MerchantStatusInquiry_req (mock_service body) req) url) = Inr envelope"
  by (rule sendRequest_mock) (simp add: MerchantStatusInquiry_req_def)

lemma decode_inquiry_data:
  "decode_StatusInquiryResponse (Data inquiry_envelope) =
     Inr (zero_StatusInquiryResponse\<lparr>inquiry_Status := ''success'', inquiry_Currency := ''TRY''\<rparr>)"
  by code_simp

lemma decode_plain_data:
  "decode_StatusInquiryResponse (Data plain_envelope) = Inr zero_StatusInquiryResponse"
  by code_simp

lemma decode_plain_details:
  "decode_TransactionDetailsResponse (Data plain_envelope) = Inr zero_TransactionDetailsResponse"
  by code_simp

section \<open>The status inquiry\<close>

text \<open>
  Claim C3.  When \<^verbatim>\<open>sendRequest\<close> gives \<^verbatim>\<open>MerchantStatusInquiry\<close> an envelope whose
  status is not success, the inquiry returns the error that carries the message of the
  envelope, and nothing has been handed to the decoder; and whenever the decoder has
  been handed something, it was the payload of an envelope with the status success.
\<close>

theorem status_inquiry_gateway_failure:
  "(sendRequest L s (MerchantStatusInquiry_req s req) (PayTRBaseURL @ ''/odeme/durum-sorgu'') =
      (Inr paytrResp, evs) \<and> Status paytrResp \<noteq> ''success'' \<longrightarrow>
    MerchantStatusInquiry L s req = (Inl (PayTR_error (Message paytrResp)), evs) \<and>
    (\<forall>d. Decode d \<notin> set (snd (MerchantStatusInquiry L s req)))) \<and>
   (Decode d \<in> set (snd (MerchantStatusInquiry L s req)) \<longrightarrow>
    (\<exists>resp evs'.
       sendRequest L s (MerchantStatusInquiry_req s req) (PayTRBaseURL @ ''/odeme/durum-sorgu'') =
         (Inr resp, evs') \<and>
       Status resp = ''success'' \<and> d = Data resp))"
proof -
  let ?sent = "sendRequest L s (MerchantStatusInquiry_req s req)
      (PayTRBaseURL @ ''/odeme/durum-sorgu'')"
  have nd: "\<And>d. Decode d \<notin> set (snd ?sent)"
    by (rule sendRequest_no_Decode)
  have a: "?sent = (Inr paytrResp, evs) \<and> Status paytrResp \<noteq> ''success'' \<longrightarrow>
      MerchantStatusInquiry L s req = (Inl (PayTR_error (Message paytrResp)), evs) \<and>
      (\<forall>d. Decode d \<notin> set (snd (MerchantStatusInquiry L s req)))"
  proof (intro impI, elim conjE)
    assume sent: "?sent = (Inr paytrResp, evs)" and st: "Status paytrResp \<noteq> ''success''"
    then have r: "MerchantStatusInquiry L s req = (Inl (PayTR_error (Message paytrResp)), evs)"
      by (simp add: MerchantStatusInquiry_def)
    from nd sent have "\<And>d. Decode d \<notin> set evs" by (metis snd_conv)
    with r show "MerchantStatusInquiry L s req = (Inl (PayTR_error (Message paytrResp)), evs) \<and>
        (\<forall>d. Decode d \<notin> set (snd (MerchantStatusInquiry L s req)))"
      by simp
  qed
  have b: "Decode d \<in> set (snd (MerchantStatusInquiry L s req)) \<longrightarrow>
      (\<exists>resp evs'. ?sent = (Inr resp, evs') \<and> Status resp = ''success'' \<and> d = Data resp)"
  proof
    assume dec: "Decode d \<in> set (snd (MerchantStatusInquiry L s req))"
    obtain res evs' where sent: "?sent = (res, evs')" by (cases ?sent)
    from nd [of d] sent have nd': "Decode d \<notin> set evs'" by simp
    show "\<exists>resp evs'. ?sent = (Inr resp, evs') \<and> Status resp = ''success'' \<and> d = Data resp"
    proof (cases res)
      case (Inl err)
      with sent dec nd' show ?thesis by (simp add: MerchantStatusInquiry_def)
    next
      case (Inr resp)
      show ?thesis
      proof (cases "Status resp = ''success''")
        case True
        with sent Inr dec nd' have "d = Data resp"
          by (auto simp: MerchantStatusInquiry_def split: sum.splits)
        with sent Inr True show ?thesis by simp
      next
        case False
        with sent Inr dec nd' show ?thesis by (simp add: MerchantStatusInquiry_def)
      qed
    qed
  qed
  from a b show ?thesis by (rule conjI)
qed

theorem status_inquiry_gateway_failure_witness:
  "fst (sendRequest (mock_stdlib failed_body failed_envelope) (mock_service failed_body)
         (MerchantStatusInquiry_req (mock_service failed_body) test_inquiry)
         (PayTRBaseURL @ ''/odeme/durum-sorgu'')) = Inr failed_envelope \<and>
   Status failed_envelope \<noteq> ''success'' \<and>
   fst (MerchantStatusInquiry (mock_stdlib failed_body failed_envelope) (mock_service failed_body)
         test_inquiry) = Inl (PayTR_error ''Order not found'') \<and>
   Decode (Data failed_envelope) \<notin>
     set (snd (MerchantStatusInquiry (mock_stdlib failed_body failed_envelope)
                 (mock_service failed_body) test_inquiry)) \<and>
   Decode (Data inquiry_envelope) \<in>
     set (snd (MerchantStatusInquiry (mock_stdlib inquiry_body inquiry_envelope)
                 (mock_service inquiry_body) test_inquiry)) \<and>
   fst (sendRequest (mock_stdlib inquiry_body inquiry_envelope) (mock_service inquiry_body)
         (MerchantStatusInquiry_req (mock_service inquiry_body) test_inquiry)
         (PayTRBaseURL @ ''/odeme/durum-sorgu'')) = Inr inquiry_envelope \<and>
   Status inquiry_envelope = ''success'' \<and>
   (\<exists>resp evs'.
      sendRequest (mock_stdlib inquiry_body inquiry_envelope) (mock_service inquiry_body)
        (MerchantStatusInquiry_req (mock_service inquiry_body) test_inquiry)
        (PayTRBaseURL @ ''/odeme/durum-sorgu'') = (Inr resp, evs') \<and>
      Status resp = ''success'' \<and> Data inquiry_envelope = Data resp)"
proof -
  let ?L = "mock_stdlib failed_body failed_envelope" and ?s = "mock_service failed_body"
  let ?sent = "sendRequest ?L ?s (MerchantStatusInquiry_req ?s test_inquiry)
      (PayTRBaseURL @ ''/odeme/durum-sorgu'')"
  have f: "fst ?sent = Inr failed_envelope" by (rule sendRequest_mock_inquiry)
  then have sent: "?sent = (Inr failed_envelope, snd ?sent)" by (metis prod.collapse)
  have st: "Status failed_envelope \<noteq> ''success''" by (simp add: failed_envelope_def)
  have msg: "Message failed_envelope = ''Order not found''" by (simp add: failed_envelope_def)
  from status_inquiry_gateway_failure
    [of ?L ?s test_inquiry failed_envelope "snd ?sent" "Data failed_envelope"] sent st
  have r: "MerchantStatusInquiry ?L ?s test_inquiry =
      (Inl (PayTR_error (Message failed_envelope)), snd ?sent)"
    and n: "Decode (Data failed_envelope) \<notin> set (snd (MerchantStatusInquiry ?L ?s test_inquiry))"
    by blast+
  from r msg have e: "fst (MerchantStatusInquiry ?L ?s test_inquiry) =
      Inl (PayTR_error ''Order not found'')"
    by simp
  let ?L' = "mock_stdlib inquiry_body inquiry_envelope" and ?s' = "mock_service inquiry_body"
  let ?sent' = "sendRequest ?L' ?s' (MerchantStatusInquiry_req ?s' test_inquiry)
      (PayTRBaseURL @ ''/odeme/durum-sorgu'')"
  have f': "fst ?sent' = Inr inquiry_envelope" by (rule sendRequest_mock_inquiry)
  then have sent': "?sent' = (Inr inquiry_envelope, snd ?sent')" by (metis prod.collapse)
  have st': "Status inquiry_envelope = ''success''" by (simp add: inquiry_envelope_def)
  have d: "Decode (Data inquiry_envelope) \<in> set (snd (MerchantStatusInquiry ?L' ?s' test_inquiry))"
    by (subst MerchantStatusInquiry_def, subst sent') (simp add: st' split: sum.splits)
  from status_inquiry_gateway_failure
    [of ?L' ?s' test_inquiry inquiry_envelope "snd ?sent'" "Data inquiry_envelope"] d
  have x: "\<exists>resp evs'. ?sent' = (Inr resp, evs') \<and> Status resp = ''success'' \<and>
      Data inquiry_envelope = Data resp"
    by blast
  from f st e n d f' st' x show ?thesis by blast
qed

section \<open>The results under such a transport\<close>

text \<open>
  Claim C9, as amended.  Let the client answer every request with a response whose body
  is read and deserialized to one envelope with the status success, and let
  \<^verbatim>\<open>http.NewRequest\<close> accept the seven addresses.  Then the eight operations that return
  the envelope return this one, without error, where the amount of a payment or of a
  refund is finite.  \<^verbatim>\<open>MerchantStatusInquiry\<close> and \<^verbatim>\<open>GetTransactionDetails\<close> return
  what the decoder makes of the payload of the envelope, its error or its result, and
  the status of a result is the string that the payload holds for the field Status, not
  the status of the envelope.
\<close>

theorem success_envelope_results:
  assumes "\<forall>r. \<exists>resp body. client s r = Inr resp \<and> ReadAll resp = Inr body \<and>
             json_Unmarshal L body = Inr envelope"
    and "Status envelope = ''success''"
    and "\<forall>p\<in>set endpoints. NewRequest_error L ''POST'' (PayTRBaseURL @ p) = None"
  shows "(float64_exp (PaymentAmount newReq) \<noteq> 2047 \<longrightarrow>
            fst (NewCardPayment L s newReq) = Inr envelope) \<and>
         (float64_exp (PaymentAmount savedReq) \<noteq> 2047 \<longrightarrow>
            fst (SavedCardPayment L s savedReq) = Inr envelope \<and>
            fst (RecurringPayment L s savedReq) = Inr envelope) \<and>
         (float64_exp (ReturnAmount refund) \<noteq> 2047 \<longrightarrow>
            fst (RefundPayment L s refund) = Inr envelope) \<and>
         fst (AddNewCard L s addReq) = Inr envelope \<and>
         fst (GetBinDetails L s binNumber) = Inr envelope \<and>
         fst (GetSavedCards L s utoken) = Inr envelope \<and>
         fst (DeleteSavedCard L s utoken ctoken) = Inr envelope \<and>
         fst (MerchantStatusInquiry L s inquiry) =
           (case decode_StatusInquiryResponse (Data envelope) of
              Inl err \<Rightarrow> Inl (Error_decoding_response err)
            | Inr result \<Rightarrow> Inr result) \<and>
         fst (GetTransactionDetails L s details) =
           (case decode_TransactionDetailsResponse (Data envelope) of
              Inl err \<Rightarrow> Inl (Error_decoding_response err)
            | Inr result \<Rightarrow> Inr result) \<and>
         (\<forall>result. decode_StatusInquiryResponse (Data envelope) = Inr result \<longrightarrow>
            inquiry_Status result = string_field (Data envelope) ''Status'') \<and>
         (\<forall>result. decode_TransactionDetailsResponse (Data envelope) = Inr result \<longrightarrow>
            details_Status result = string_field (Data envelope) ''Status'')"
proof -
  note url = endpoint_accepted [OF assms(3)]
  note echo = sendRequest_echo [OF assms(1)]
  have a: "float64_exp (PaymentAmount newReq) \<noteq> 2047 \<longrightarrow>
      fst (NewCardPayment L s newReq) = Inr envelope"
    by (simp add: NewCardPayment_def echo url unsupported_NewCardPayload NewCardPayment_req_def
        del: json_members.simps)
  have b: "float64_exp (PaymentAmount savedReq) \<noteq> 2047 \<longrightarrow>
      fst (SavedCardPayment L s savedReq) = Inr envelope \<and>
      fst (RecurringPayment L s savedReq) = Inr envelope"
    by (simp add: SavedCardPayment_def RecurringPayment_def echo url unsupported_SavedCardPayload
        SavedCardPayment_req_def RecurringPayment_req_def Let_def del: json_members.simps)
  have c: "float64_exp (ReturnAmount refund) \<noteq> 2047 \<longrightarrow>
      fst (RefundPayment L s refund) = Inr envelope"
    by (simp add: RefundPayment_def echo url RefundPayment_req_def)
  have d: "fst (AddNewCard L s addReq) = Inr envelope"
    by (simp add: AddNewCard_def echo url unsupported_NewCardPayload AddNewCard_req_def
        AddNewCard_paytrReq_def Let_def float64_one_finite del: json_members.simps)
  have e: "fst (GetBinDetails L s binNumber) = Inr envelope"
    by (simp add: GetBinDetails_def echo url GetBinDetails_req_def)
  have f: "fst (GetSavedCards L s utoken) = Inr envelope"
    by (simp add: GetSavedCards_def echo url GetSavedCards_req_def)
  have g: "fst (DeleteSavedCard L s utoken ctoken) = Inr envelope"
    by (simp add: DeleteSavedCard_def echo url DeleteSavedCard_req_def)
  have "fst (sendRequest L s (MerchantStatusInquiry_req s inquiry)
          (PayTRBaseURL @ ''/odeme/durum-sorgu'')) = Inr envelope"
    by (simp add: echo url MerchantStatusInquiry_req_def)
  then obtain evs where "sendRequest L s (MerchantStatusInquiry_req s inquiry)
      (PayTRBaseURL @ ''/odeme/durum-sorgu'') = (Inr envelope, evs)"
    by (metis prod.collapse)
  then have h: "fst (MerchantStatusInquiry L s inquiry) =
      (case decode_StatusInquiryResponse (Data envelope) of
         Inl err \<Rightarrow> Inl (Error_decoding_response err)
       | Inr result \<Rightarrow> Inr result)"
    using assms(2) by (simp add: MerchantStatusInquiry_def split: sum.splits)
  have "fst (sendRequest L s (GetTransactionDetails_req s details)
          (PayTRBaseURL @ ''/rapor/islem-dokumu'')) = Inr envelope"
    by (simp add: echo url GetTransactionDetails_req_def)
  then obtain evs' where "sendRequest L s (GetTransactionDetails_req s details)
      (PayTRBaseURL @ ''/rapor/islem-dokumu'') = (Inr envelope, evs')"
    by (metis prod.collapse)
  then have i: "fst (GetTransactionDetails L s details) =
      (case decode_TransactionDetailsResponse (Data envelope) of
         Inl err \<Rightarrow> Inl (Error_decoding_response err)
       | Inr result \<Rightarrow> Inr result)"
    by (simp add: GetTransactionDetails_def split: sum.splits)
  have j: "\<forall>result. decode_StatusInquiryResponse (Data envelope) = Inr result \<longrightarrow>
      inquiry_Status result = string_field (Data envelope) ''Status''"
    by (simp add: decoded_inquiry_Status)
  have k: "\<forall>result. decode_TransactionDetailsResponse (Data envelope) = Inr result \<longrightarrow>
      details_Status result = string_field (Data envelope) ''Status''"
    by (simp add: decoded_details_Status)
  from a b c d e f g h i j k show ?thesis by (simp only: simp_thms)
qed

theorem success_envelope_results_witness:
  "json_Unmarshal (mock_stdlib inquiry_body inquiry_envelope) inquiry_body = Inr inquiry_envelope \<and>
   Status inquiry_envelope = ''success'' \<and>
   float64_exp (PaymentAmount test_new_card) \<noteq> 2047 \<and>
   fst (NewCardPayment (mock_stdlib inquiry_body inquiry_envelope) (mock_service inquiry_body)
         test_new_card) = Inr inquiry_envelope \<and>
   fst (MerchantStatusInquiry (mock_stdlib inquiry_body inquiry_envelope)
         (mock_service inquiry_body) test_inquiry) =
     Inr (zero_StatusInquiryResponse\<lparr>inquiry_Status := ''success'', inquiry_Currency := ''TRY''\<rparr>) \<and>
   string_field (Data inquiry_envelope) ''Status'' = ''success''"
proof -
  let ?L = "mock_stdlib inquiry_body inquiry_envelope" and ?s = "mock_service inquiry_body"
  have u: "json_Unmarshal ?L inquiry_body = Inr inquiry_envelope"
    by (simp add: mock_stdlib_def)
  have st: "Status inquiry_envelope = ''success''"
    by (simp add: inquiry_envelope_def)
  have acc: "\<forall>p\<in>set endpoints. NewRequest_error ?L ''POST'' (PayTRBaseURL @ p) = None"
    by (simp add: mock_accepts)
  have fin: "float64_exp (PaymentAmount test_new_card) \<noteq> 2047"
    by (simp add: test_new_card_def CommonPaymentRequest.extend_def test_common_def
        float64_100_def float64_exp_def)
  note t = success_envelope_results [OF mock_echo st acc,
      of test_new_card _ _ _ _ _ _ test_inquiry]
  from t fin have n: "fst (NewCardPayment ?L ?s test_new_card) = Inr inquiry_envelope"
    by blast
  from t have "fst (MerchantStatusInquiry ?L ?s test_inquiry) =
      (case decode_StatusInquiryResponse (Data inquiry_envelope) of
         Inl err \<Rightarrow> Inl (Error_decoding_response err)
       | Inr result \<Rightarrow> Inr result)"
    by blast
  then have m: "fst (MerchantStatusInquiry ?L ?s test_inquiry) =
      Inr (zero_StatusInquiryResponse\<lparr>inquiry_Status := ''success'', inquiry_Currency := ''TRY''\<rparr>)"
    by (simp add: decode_inquiry_data)
  from t decode_inquiry_data
  have "inquiry_Status
          (zero_StatusInquiryResponse\<lparr>inquiry_Status := ''success'', inquiry_Currency := ''TRY''\<rparr>) =
        string_field (Data inquiry_envelope) ''Status''"
    by blast
  then have f: "string_field (Data inquiry_envelope) ''Status'' = ''success''"
    by simp
  from u st fin n m f show ?thesis by blast
qed

text \<open>
  Claim C9 as stated fails at the envelope of \<^verbatim>\<open>TestSavedCardPayment\<close>, which has the
  status success and no payload: the inquiry and the report return results whose status
  is empty.  It fails also at a payment whose amount is a NaN, which no transport can
  save from the error of the serialization.
\<close>

theorem success_envelope_counterexample:
  "json_Unmarshal (mock_stdlib plain_body plain_envelope) plain_body = Inr plain_envelope \<and>
   Status plain_envelope = ''success'' \<and>
   fst (MerchantStatusInquiry (mock_stdlib plain_body plain_envelope) (mock_service plain_body)
         test_inquiry) = Inr zero_StatusInquiryResponse \<and>
   inquiry_Status zero_StatusInquiryResponse \<noteq> ''success'' \<and>
   fst (GetTransactionDetails (mock_stdlib plain_body plain_envelope) (mock_service plain_body)
         test_details) = Inr zero_TransactionDetailsResponse \<and>
   details_Status zero_TransactionDetailsResponse \<noteq> ''success'' \<and>
   fst (NewCardPayment (mock_stdlib plain_body plain_envelope) (mock_service plain_body)
         NaN_new_card) = Inl (UnsupportedValueError float64_NaN)"
proof -
  let ?L = "mock_stdlib plain_body plain_envelope" and ?s = "mock_service plain_body"
  have u: "json_Unmarshal ?L plain_body = Inr plain_envelope"
    by (simp add: mock_stdlib_def)
  have st: "Status plain_envelope = ''success''"
    by (simp add: plain_envelope_def)
  have "fst (sendRequest ?L ?s (MerchantStatusInquiry_req ?s test_inquiry)
          (PayTRBaseURL @ ''/odeme/durum-sorgu'')) = Inr plain_envelope"
    by (rule sendRequest_mock_inquiry)
  then obtain evs where "sendRequest ?L ?s (MerchantStatusInquiry_req ?s test_inquiry)
      (PayTRBaseURL @ ''/odeme/durum-sorgu'') = (Inr plain_envelope, evs)"
    by (metis prod.collapse)
  then have a: "fst (MerchantStatusInquiry ?L ?s test_inquiry) = Inr zero_StatusInquiryResponse"
    by (simp add: MerchantStatusInquiry_def st decode_plain_data)
  have b: "inquiry_Status zero_StatusInquiryResponse \<noteq> ''success''"
    by (simp add: zero_StatusInquiryResponse_def)
  have "fst (sendRequest ?L ?s (GetTransactionDetails_req ?s test_details)
          (PayTRBaseURL @ ''/rapor/islem-dokumu'')) = Inr plain_envelope"
    by (rule sendRequest_mock) (simp add: GetTransactionDetails_req_def)
  then obtain evs' where "sendRequest ?L ?s (GetTransactionDetails_req ?s test_details)
      (PayTRBaseURL @ ''/rapor/islem-dokumu'') = (Inr plain_envelope, evs')"
    by (metis prod.collapse)
  then have c: "fst (GetTransactionDetails ?L ?s test_details) = Inr zero_TransactionDetailsResponse"
    by (simp add: GetTransactionDetails_def decode_plain_details)
  have d: "details_Status zero_TransactionDetailsResponse \<noteq> ''success''"
    by (simp add: zero_TransactionDetailsResponse_def)
  have "json_Marshal (NewCardPayload (NewCardPayment_req ?s NaN_new_card)) =
      Inl (UnsupportedValueError float64_NaN)"
    by (simp add: json_Marshal_def common_members_def NewCardPayment_req_def NaN_new_card_def
        float64_NaN_def float64_exp_def)
  then have e: "fst (NewCardPayment ?L ?s NaN_new_card) = Inl (UnsupportedValueError float64_NaN)"
    by (simp add: NewCardPayment_def sendRequest_def)
  from u st a b c d e show ?thesis by blast
qed

end
